theory Spec2Isabelle
  imports Complex_Main "HOL-Library.Word"
begin

section \<open>JavaScript values used by the code\<close>

text \<open>
  Strings are lists of characters. \<open>String.prototype.trim\<close> removes white space and line
  terminators from both ends; of the code points ECMAScript lists, the ones a \<open>char\<close> can
  hold are TAB, LF, VT, FF, CR, SPACE and NBSP.
\<close>

definition is_ws :: "char \<Rightarrow> bool" where
  "is_ws c = (c \<in> set [CHR 0x09, CHR 0x0A, CHR 0x0B, CHR 0x0C, CHR 0x0D, CHR 0x20, CHR 0xA0])"

definition trim :: "string \<Rightarrow> string" where
  "trim s = rev (dropWhile is_ws (rev (dropWhile is_ws s)))"

text \<open>
  \<open>split_at_first needle hay\<close> finds the leftmost occurrence of \<open>needle\<close> in \<open>hay\<close> and
  returns what stands before and after it; \<open>str_includes\<close> is \<open>String.prototype.includes\<close>.
\<close>

fun split_at_first :: "string \<Rightarrow> string \<Rightarrow> (string \<times> string) option" where
  "split_at_first needle [] = (if needle = [] then Some ([], []) else None)"
| "split_at_first needle (c # cs) =
     (if take (length needle) (c # cs) = needle then Some ([], drop (length needle) (c # cs))
      else map_option (\<lambda>(b, a). (c # b, a)) (split_at_first needle cs))"

definition str_includes :: "string \<Rightarrow> string \<Rightarrow> bool" where
  "str_includes hay needle = (split_at_first needle hay \<noteq> None)"

section \<open>Sitemap parsing and URL extraction (src/utils/sitemap.ts)\<close>

record SitemapUrl =
  loc :: string
  lastmod :: "string option"
  changefreq :: "string option"
  priority :: "string option"

text \<open>
  The two shapes of regular expression the parsers use, each with a literal, non-empty
  opening tag. \<open>regex_blocks opn cls s\<close> lists
  group 1 of the successive matches of \<open>/opn([\s\S]*?)cls/g\<close>, as the \<open>exec\<close> loop sees them:
  the leftmost opening tag, then the nearest closing tag after it, then on from the end of
  that match. \<open>regex_group opn cls s\<close> is group 1 of the first match of \<open>/opn(.*?)cls/\<close>,
  where \<open>.\<close> matches no line terminator: a start whose nearest closing tag lies beyond a
  line break fails, and the search goes on to the next opening tag.
\<close>

lemma take_eq_length_le: "take (length needle) hay = needle \<Longrightarrow> length needle \<le> length hay"
proof -
  assume "take (length needle) hay = needle"
  then have "length (take (length needle) hay) = length needle" by simp
  then show ?thesis by simp
qed

lemma split_at_first_length:
  "split_at_first needle hay = Some (b, a) \<Longrightarrow> length b + length needle + length a = length hay"
proof (induction hay arbitrary: b)
  case Nil
  then show ?case by (simp split: if_splits)
next
  case (Cons c cs)
  show ?case
  proof (cases "take (length needle) (c # cs) = needle")
    case True
    have "length needle \<le> length (c # cs)" by (rule take_eq_length_le [OF True])
    moreover from True Cons.prems have "b = []" and "a = drop (length needle) (c # cs)" by auto
    ultimately show ?thesis by simp
  next
    case False
    with Cons.prems obtain b' where "split_at_first needle cs = Some (b', a)" and "b = c # b'"
      by auto
    with Cons.IH [of b'] show ?thesis by simp
  qed
qed

lemma split_at_first_shorter:
  "split_at_first needle hay = Some (b, a) \<Longrightarrow> needle \<noteq> [] \<Longrightarrow> length a < length hay"
  using split_at_first_length [of needle hay b a] by (cases needle) auto

function regex_blocks :: "string \<Rightarrow> string \<Rightarrow> string \<Rightarrow> string list" where
  "regex_blocks opn cls s =
     (if opn = [] then []
      else
        (case split_at_first opn s of
           None \<Rightarrow> []
         | Some (before, rest) \<Rightarrow>
             (case split_at_first cls rest of
                None \<Rightarrow> []
              | Some (body, rest') \<Rightarrow> body # regex_blocks opn cls rest')))"
  by pat_completeness auto
termination
proof (relation "measure (\<lambda>(opn, cls, s). length s)", goal_cases)
  case 1
  show ?case by simp
next
  case (2 opn cls s x2 before rest x2a body rest')
  from 2(3) 2(2) have "split_at_first opn s = Some (before, rest)" by simp
  from split_at_first_shorter [OF this 2(1)] have "length rest < length s" .
  moreover from 2(5) 2(4) have "length body + length cls + length rest' = length rest"
    by (simp add: split_at_first_length)
  ultimately show ?case by simp
qed

definition is_line_terminator :: "char \<Rightarrow> bool" where
  "is_line_terminator c = (c = CHR 0x0A \<or> c = CHR 0x0D)"

function regex_group :: "string \<Rightarrow> string \<Rightarrow> string \<Rightarrow> string option" where
  "regex_group opn cls s =
     (if opn = [] then None
      else
        (case split_at_first opn s of
           None \<Rightarrow> None
         | Some (before, rest) \<Rightarrow>
             (case split_at_first cls rest of
                None \<Rightarrow> None
              | Some (body, rest') \<Rightarrow>
                  if list_ex is_line_terminator body then regex_group opn cls rest
                  else Some body)))"
  by pat_completeness auto
termination
proof (relation "measure (\<lambda>(opn, cls, s). length s)", goal_cases)
  case 1
  show ?case by simp
next
  case (2 opn cls s x2 before rest x2a body rest')
  from 2(3) 2(2) have "split_at_first opn s = Some (before, rest)" by simp
  from split_at_first_shorter [OF this 2(1)] have "length rest < length s" .
  then show ?case by simp
qed

text \<open>An optional tag of a \<open><url>\<close> block: set when the tag matches and its text is not empty.\<close>

definition optional_tag :: "string \<Rightarrow> string \<Rightarrow> string \<Rightarrow> string option" where
  "optional_tag opn cls urlBlock =
     (case regex_group opn cls urlBlock of
        None \<Rightarrow> None
      | Some g \<Rightarrow> if g = [] then None else Some (trim g))"

definition parseSitemap :: "string \<Rightarrow> SitemapUrl list" where
  "parseSitemap xmlContent =
     concat (map (\<lambda>urlBlock.
        (case regex_group ''<loc>'' ''</loc>'' urlBlock of
           None \<Rightarrow> []
         | Some g \<Rightarrow>
             if g = [] then []
             else [\<lparr> loc = trim g,
                     lastmod = optional_tag ''<lastmod>'' ''</lastmod>'' urlBlock,
                     changefreq = optional_tag ''<changefreq>'' ''</changefreq>'' urlBlock,
                     priority = optional_tag ''<priority>'' ''</priority>'' urlBlock \<rparr>]))
       (regex_blocks ''<url>'' ''</url>'' xmlContent))"

definition isSitemapIndex :: "string \<Rightarrow> bool" where
  "isSitemapIndex xmlContent =
     (str_includes xmlContent ''<sitemapindex'' \<or> str_includes xmlContent ''<sitemap>'')"

definition parseSitemapIndex :: "string \<Rightarrow> string list" where
  "parseSitemapIndex xmlContent =
     concat (map (\<lambda>sitemapBlock.
        (case regex_group ''<loc>'' ''</loc>'' sitemapBlock of
           None \<Rightarrow> []
         | Some g \<Rightarrow> if g = [] then [] else [trim g]))
       (regex_blocks ''<sitemap>'' ''</sitemap>'' xmlContent))"

text \<open>
  \<open>extractAllUrls\<close> keeps two mutable locals, \<open>allUrls\<close> and \<open>visitedSitemaps\<close>, which the
  inner \<open>extractRecursive\<close> updates. The model passes them as a state and also keeps, in
  \<open>fetched\<close>, the URL and depth of every call of \<open>fetchSitemap\<close> in order (the source logs
  exactly this pair before each fetch). \<open>fetchSitemap\<close> does network input and output: its
  outcome for a URL is a parameter, \<open>Inl\<close> the message of the error it throws and \<open>Inr\<close> the
  XML text. The \<open>try\<close> block of \<open>extractRecursive\<close> catches that error and returns.
\<close>

record extract_state =
  allUrls :: "SitemapUrl list"
  visitedSitemaps :: "string set"
  fetched :: "(string \<times> nat) list"

function extractRecursive ::
    "(string \<Rightarrow> string + string) \<Rightarrow> int \<Rightarrow> string \<Rightarrow> nat \<Rightarrow> extract_state \<Rightarrow> extract_state"
  and extractNested ::
    "(string \<Rightarrow> string + string) \<Rightarrow> int \<Rightarrow> string list \<Rightarrow> nat \<Rightarrow> extract_state \<Rightarrow> extract_state"
where
  "extractRecursive fetchSitemap maxDepth url depth st =
     (if int depth > maxDepth \<or> url \<in> visitedSitemaps st then st
      else
        let st1 = st\<lparr> visitedSitemaps := insert url (visitedSitemaps st),
                      fetched := fetched st @ [(url, depth)] \<rparr>
        in (case fetchSitemap url of
              Inl err \<Rightarrow> st1
            | Inr xmlContent \<Rightarrow>
                if isSitemapIndex xmlContent
                then extractNested fetchSitemap maxDepth (parseSitemapIndex xmlContent) (depth + 1) st1
                else st1\<lparr> allUrls := allUrls st1 @ parseSitemap xmlContent \<rparr>))"
| "extractNested fetchSitemap maxDepth [] depth st = st"
| "extractNested fetchSitemap maxDepth (nestedUrl # rest) depth st =
     extractNested fetchSitemap maxDepth rest depth
       (extractRecursive fetchSitemap maxDepth nestedUrl depth st)"
  by pat_completeness auto
termination
  by (relation "inv_image (less_than <*lex*> less_than) (\<lambda>x. case x of
          Inl (f, maxDepth, url, depth, st) \<Rightarrow> (nat (maxDepth + 1 - int depth), 0)
        | Inr (f, maxDepth, urls, depth, st) \<Rightarrow> (nat (maxDepth + 1 - int depth), Suc (length urls)))")
    auto

definition extractAllUrls_run :: "(string \<Rightarrow> string + string) \<Rightarrow> string \<Rightarrow> int \<Rightarrow> extract_state" where
  "extractAllUrls_run fetchSitemap sitemapUrl maxDepth =
     extractRecursive fetchSitemap maxDepth sitemapUrl 0
       \<lparr> allUrls = [], visitedSitemaps = {}, fetched = [] \<rparr>"

definition extractAllUrls :: "(string \<Rightarrow> string + string) \<Rightarrow> string \<Rightarrow> int \<Rightarrow> SitemapUrl list" where
  "extractAllUrls fetchSitemap sitemapUrl maxDepth =
     allUrls (extractAllUrls_run fetchSitemap sitemapUrl maxDepth)"

declare extractRecursive.simps [simp del]

text \<open>
  What the traversal maintains: no URL is fetched twice, every fetched URL is in the visited
  set, and every fetch happens at a depth of at most \<open>maxDepth\<close>.
\<close>

definition fetch_inv :: "int \<Rightarrow> extract_state \<Rightarrow> bool" where
  "fetch_inv maxDepth st =
     (distinct (map fst (fetched st)) \<and> fst ` set (fetched st) \<subseteq> visitedSitemaps st
      \<and> list_all (\<lambda>(url, depth). int depth \<le> maxDepth) (fetched st))"

text \<open>
  The number of fetches a call can make with \<open>k\<close> levels left, when no sitemap index
  lists more than \<open>b\<close> nested sitemaps.
\<close>

fun fetch_bound :: "nat \<Rightarrow> nat \<Rightarrow> nat" where
  "fetch_bound b 0 = 0"
| "fetch_bound b (Suc k) = 1 + b * fetch_bound b k"

text \<open>A site whose sitemap indexes refer to each other: A lists B, and B lists A and C.\<close>

definition cyclic_site :: "string \<Rightarrow> string + string" where
  "cyclic_site url =
     (if url = ''A'' then Inr ''<sitemapindex><sitemap><loc>B</loc></sitemap></sitemapindex>''
      else if url = ''B'' then Inr ''<sitemapindex><sitemap><loc>A</loc></sitemap><sitemap><loc>C</loc></sitemap></sitemapindex>''
      else if url = ''C'' then Inr ''<urlset><url><loc>https://x/p</loc></url></urlset>''
      else Inl ''Failed to fetch sitemap: 404 Not Found'')"

section \<open>Merging databases (the merge-db script)\<close>

text \<open>
  A template literal renders an integer in decimal, with a minus sign when it is negative.
\<close>

definition digit_char :: "nat \<Rightarrow> char" where
  "digit_char d = char_of (48 + d)"

function string_of_nat :: "nat \<Rightarrow> string" where
  "string_of_nat n =
     (if n < 10 then [digit_char n] else string_of_nat (n div 10) @ [digit_char (n mod 10)])"
  by pat_completeness auto
termination
  by (relation "measure (\<lambda>n. n)") auto

declare string_of_nat.simps [simp del]


text \<open>
  A row of the \<open>documents\<close> table, as \<open>getDocuments\<close> reads it. The field \<open>id\<close> of the source
  is \<open>row_id\<close> here; blobs are lists of bytes.
\<close>

record DocumentRow =
  row_id :: nat
  filename :: string
  content :: string
  chunk_text :: string
  embedding :: "8 word list"
  chunk_index :: int
  chunk_size :: int
  hypothetical_questions :: "string option"
  question_embeddings :: "8 word list option"
  chunk_metadata :: "string option"
  created_at :: int











subsection \<open>What the merge is measured against\<close>





















section \<open>The HTTP server (routes /search, /ask and /ask/stream)\<close>

text \<open>
  What \<open>req.json()\<close> gives is the handler's input: \<open>Inl\<close> the message of the error it throws
  on a body that is not JSON, \<open>Inr\<close> the parsed value. A parsed body is \<open>null\<close>, an object
  with its fields, or another value (a number, a string, a boolean, an array), which has
  none of the fields the handlers read. A field's value is a JavaScript value; the contents
  of arrays and objects play no part in the handlers. \<open>None\<close> is \<open>undefined\<close>.
\<close>

datatype jsval = Null | Bool bool | Num real | Str string | Arr | Obj

datatype parsed_body = BodyNull | BodyObject "string \<Rightarrow> jsval option" | BodyOther

definition truthy :: "jsval option \<Rightarrow> bool" where
  "truthy v =
     (case v of
        None \<Rightarrow> False
      | Some Null \<Rightarrow> False
      | Some (Bool b) \<Rightarrow> b
      | Some (Num x) \<Rightarrow> x \<noteq> 0
      | Some (Str s) \<Rightarrow> s \<noteq> []
      | Some Arr \<Rightarrow> True
      | Some Obj \<Rightarrow> True)"

definition typeof :: "jsval option \<Rightarrow> string" where
  "typeof v =
     (case v of
        None \<Rightarrow> ''undefined''
      | Some Null \<Rightarrow> ''object''
      | Some (Bool b) \<Rightarrow> ''boolean''
      | Some (Num x) \<Rightarrow> ''number''
      | Some (Str s) \<Rightarrow> ''string''
      | Some Arr \<Rightarrow> ''object''
      | Some Obj \<Rightarrow> ''object'')"

text \<open>Reading a property: of \<open>null\<close> it throws a TypeError, of a value without it it is \<open>undefined\<close>.\<close>

definition property :: "parsed_body \<Rightarrow> string \<Rightarrow> string + jsval option" where
  "property body name =
     (case body of
        BodyNull \<Rightarrow> Inl ''null is not an object''
      | BodyObject fs \<Rightarrow> Inr (fs name)
      | BodyOther \<Rightarrow> Inr None)"

definition field :: "parsed_body \<Rightarrow> string \<Rightarrow> jsval option" where
  "field body name = (case property body name of Inl err \<Rightarrow> None | Inr v \<Rightarrow> v)"

text \<open>
  \<open>v && typeof v === 'number' ? v : d\<close> and \<open>v && typeof v === 'string' ? v : undefined\<close>.
\<close>

definition number_or :: "jsval option \<Rightarrow> real \<Rightarrow> real" where
  "number_or v d =
     (if truthy v \<and> typeof v = ''number'' then (case v of Some (Num x) \<Rightarrow> x | _ \<Rightarrow> d) else d)"

definition string_or_undefined :: "jsval option \<Rightarrow> string option" where
  "string_or_undefined v =
     (if truthy v \<and> typeof v = ''string'' then (case v of Some (Str s) \<Rightarrow> Some s | _ \<Rightarrow> None)
      else None)"

text \<open>
  Modelled from the spec: the type \<open>StreamEvent\<close> is declared in \<open>types/index\<close>, which is not
  among the sources. The spec names content-delta events and a terminal error event; the
  handler itself builds \<open>{type: 'error', error}\<close>.
\<close>

datatype StreamEvent = ContentDelta string | ErrorEvent string

text \<open>
  The services the handlers call are parameters, with the two constants of
  \<open>constants/rag\<close>. \<open>searchSimilar\<close> and \<open>askQuestion\<close> return a value or throw (\<open>Inl\<close> the
  message). \<open>streamQuestion\<close> is an asynchronous generator: what it does when iterated is a
  list of steps, each a yielded event or a throw, and it returns at the end of the list;
  steps after a throw never happen. \<open>JSON_stringify\<close> is \<open>JSON.stringify\<close> on events.
\<close>

datatype gen_step = Yield StreamEvent | Throw string

record ('r, 'a) server_env =
  DEFAULT_TOP_K :: real
  SIMILARITY_THRESHOLD :: real
  searchSimilar :: "string \<Rightarrow> real \<Rightarrow> real \<Rightarrow> string + 'r"
  askQuestion :: "string \<Rightarrow> real \<Rightarrow> real \<Rightarrow> string option \<Rightarrow> real \<Rightarrow> string + 'a"
  streamQuestion :: "string \<Rightarrow> real \<Rightarrow> real \<Rightarrow> string option \<Rightarrow> real \<Rightarrow> gen_step list"
  JSON_stringify :: "StreamEvent \<Rightarrow> string"

text \<open>
  The calls a handler makes to the services, in order, with their arguments after the
  database: the query or question, \<open>topK\<close>, then for the two ask services
  \<open>maxAnswerLength\<close> and \<open>systemPrompt\<close>, and the similarity threshold last.
\<close>

datatype service_call =
    SearchSimilar string real real
  | AskQuestion string real real "string option" real
  | StreamQuestion string real real "string option" real

fun call_topK :: "service_call \<Rightarrow> real" where
  "call_topK (SearchSimilar q k t) = k"
| "call_topK (AskQuestion q k m p t) = k"
| "call_topK (StreamQuestion q k m p t) = k"

fun call_similarityThreshold :: "service_call \<Rightarrow> real" where
  "call_similarityThreshold (SearchSimilar q k t) = t"
| "call_similarityThreshold (AskQuestion q k m p t) = t"
| "call_similarityThreshold (StreamQuestion q k m p t) = t"

text \<open>
  The stream of \<open>/ask/stream\<close>: the chunks enqueued on its controller, in order, and whether
  the controller has been closed. A chunk is the text \<open>data: \<close>, the event as JSON and two
  line feeds (the UTF-8 encoding of the text is left out).
\<close>

record controller =
  enqueued :: "string list"
  closed :: bool

definition sseMessage :: "(StreamEvent \<Rightarrow> string) \<Rightarrow> StreamEvent \<Rightarrow> string" where
  "sseMessage stringify event = ''data: '' @ stringify event @ [CHR 0x0A, CHR 0x0A]"

text \<open>
  \<open>start\<close>: the \<open>for await\<close> loop enqueues each event the generator yields and closes the
  stream when the generator returns; when the generator throws, the \<open>catch\<close> block
  enqueues one error event and closes the stream.
\<close>

fun stream_start :: "(StreamEvent \<Rightarrow> string) \<Rightarrow> gen_step list \<Rightarrow> controller \<Rightarrow> controller" where
  "stream_start stringify [] c = c\<lparr> closed := True \<rparr>"
| "stream_start stringify (Yield event # rest) c =
     stream_start stringify rest (c\<lparr> enqueued := enqueued c @ [sseMessage stringify event] \<rparr>)"
| "stream_start stringify (Throw err # rest) c =
     c\<lparr> enqueued := enqueued c @ [sseMessage stringify (ErrorEvent err)], closed := True \<rparr>"

text \<open>
  A response is its status (200 when the handler gives none) and its payload; the time
  measured around the service call (\<open>took_ms\<close>) is left out.
\<close>

datatype ('r, 'a) payload =
    ErrorBody string "string option"
  | SearchBody 'r string
  | AskBody 'a
  | EventStream controller

datatype ('r, 'a) response = Response nat "('r, 'a) payload"

definition internal_error :: "string \<Rightarrow> ('r, 'a) response" where
  "internal_error message = Response 500 (ErrorBody ''Internal server error'' (Some message))"

definition search_POST ::
    "('r, 'a) server_env \<Rightarrow> string + parsed_body \<Rightarrow> ('r, 'a) response \<times> service_call list" where
  "search_POST env req_json =
     (case req_json of
        Inl err \<Rightarrow> (internal_error err, [])
      | Inr body \<Rightarrow>
          (case property body ''query'' of
             Inl err \<Rightarrow> (internal_error err, [])
           | Inr query \<Rightarrow>
               if \<not> truthy query \<or> typeof query \<noteq> ''string''
               then (Response 400 (ErrorBody ''Missing or invalid 'query' parameter'' None), [])
               else
                 (case query of
                    Some (Str q) \<Rightarrow>
                      let topK = number_or (field body ''topK'') (DEFAULT_TOP_K env);
                          similarityThreshold =
                            number_or (field body ''similarityThreshold'') (SIMILARITY_THRESHOLD env)
                      in (case searchSimilar env q topK similarityThreshold of
                            Inl err \<Rightarrow> (internal_error err, [SearchSimilar q topK similarityThreshold])
                          | Inr results \<Rightarrow>
                              (Response 200 (SearchBody results q),
                               [SearchSimilar q topK similarityThreshold]))
                  | _ \<Rightarrow> (internal_error [], []))))"

definition ask_POST ::
    "('r, 'a) server_env \<Rightarrow> string + parsed_body \<Rightarrow> ('r, 'a) response \<times> service_call list" where
  "ask_POST env req_json =
     (case req_json of
        Inl err \<Rightarrow> (internal_error err, [])
      | Inr body \<Rightarrow>
          (case property body ''question'' of
             Inl err \<Rightarrow> (internal_error err, [])
           | Inr question \<Rightarrow>
               if \<not> truthy question \<or> typeof question \<noteq> ''string''
               then (Response 400 (ErrorBody ''Missing or invalid 'question' parameter'' None), [])
               else
                 (case question of
                    Some (Str q) \<Rightarrow>
                      let topK = number_or (field body ''topK'') (DEFAULT_TOP_K env);
                          similarityThreshold =
                            number_or (field body ''similarityThreshold'') (SIMILARITY_THRESHOLD env);
                          maxAnswerLength = number_or (field body ''maxAnswerLength'') 800;
                          systemPrompt = string_or_undefined (field body ''systemPrompt'')
                      in (case askQuestion env q topK maxAnswerLength systemPrompt similarityThreshold of
                            Inl err \<Rightarrow>
                              (internal_error err,
                               [AskQuestion q topK maxAnswerLength systemPrompt similarityThreshold])
                          | Inr result \<Rightarrow>
                              (Response 200 (AskBody result),
                               [AskQuestion q topK maxAnswerLength systemPrompt similarityThreshold]))
                  | _ \<Rightarrow> (internal_error [], []))))"

definition ask_stream_POST ::
    "('r, 'a) server_env \<Rightarrow> string + parsed_body \<Rightarrow> ('r, 'a) response \<times> service_call list" where
  "ask_stream_POST env req_json =
     (case req_json of
        Inl err \<Rightarrow> (internal_error err, [])
      | Inr body \<Rightarrow>
          (case property body ''question'' of
             Inl err \<Rightarrow> (internal_error err, [])
           | Inr question \<Rightarrow>
               if \<not> truthy question \<or> typeof question \<noteq> ''string''
               then (Response 400 (ErrorBody ''Missing or invalid 'question' parameter'' None), [])
               else
                 (case question of
                    Some (Str q) \<Rightarrow>
                      let topK = number_or (field body ''topK'') (DEFAULT_TOP_K env);
                          similarityThreshold =
                            number_or (field body ''similarityThreshold'') (SIMILARITY_THRESHOLD env);
                          maxAnswerLength = number_or (field body ''maxAnswerLength'') 800;
                          systemPrompt = string_or_undefined (field body ''systemPrompt'')
                      in (Response 200 (EventStream
                            (stream_start (JSON_stringify env)
                               (streamQuestion env q topK maxAnswerLength systemPrompt similarityThreshold)
                               \<lparr> enqueued = [], closed = False \<rparr>)),
                          [StreamQuestion q topK maxAnswerLength systemPrompt similarityThreshold])
                  | _ \<Rightarrow> (internal_error [], []))))"

text \<open>
  What a generator does before it stops: the events it yields, and the error it throws if
  it stops by throwing.
\<close>

fun yielded :: "gen_step list \<Rightarrow> StreamEvent list" where
  "yielded [] = []"
| "yielded (Yield event # rest) = event # yielded rest"
| "yielded (Throw err # rest) = []"

fun thrown :: "gen_step list \<Rightarrow> string option" where
  "thrown [] = None"
| "thrown (Yield event # rest) = thrown rest"
| "thrown (Throw err # rest) = Some err"

text \<open>
  A server for the examples: five results and a threshold of 0.3 by default, a search that
  finds nothing, an answer, and a model stream that fails after three content-delta events.
\<close>

definition example_stringify :: "StreamEvent \<Rightarrow> string" where
  "example_stringify event =
     (case event of ContentDelta t \<Rightarrow> ''{content:'' @ t @ ''}'' | ErrorEvent e \<Rightarrow> ''{error:'' @ e @ ''}'')"

definition example_env :: "(string list, string) server_env" where
  "example_env =
     \<lparr> DEFAULT_TOP_K = 5, SIMILARITY_THRESHOLD = 3 / 10,
       searchSimilar = (\<lambda>q k t. Inr []),
       askQuestion = (\<lambda>q k m p t. Inr ''answer''),
       streamQuestion = (\<lambda>q k m p t.
          [Yield (ContentDelta ''a''), Yield (ContentDelta ''ab''), Yield (ContentDelta ''abc''),
           Throw ''model backend failed'', Yield (ContentDelta ''abcd'')]),
       JSON_stringify = example_stringify \<rparr>"

definition zero_params_body :: "string \<Rightarrow> parsed_body" where
  "zero_params_body name =
     BodyObject ([name \<mapsto> Str ''roas'', ''topK'' \<mapsto> Num 0, ''similarityThreshold'' \<mapsto> Num 0])"


section \<open>Ingestion (src/services/ingest.ts)\<close>

subsection \<open>State, errors and the services ingestion calls\<close>

text \<open>
  A record handed to \<open>insertDocument\<close>: the arguments of the call after the database, with
  the identifier the store generates. The metadata argument is left out: no property here
  reads it. The content embedding is \<open>None\<close> when the code passes \<open>undefined\<close> (an index
  beyond the vectors the embedding service returned).
\<close>

type_synonym vector = "real list"

record stored_chunk =
  doc_id :: nat
  doc_filename :: string
  doc_content :: string
  doc_chunk_text :: string
  doc_embedding :: "vector option"
  doc_chunk_index :: nat
  doc_chunk_size :: nat
  questions :: "string list"
  questionEmbeddings :: "vector list"

text \<open>
  The state is the store and the outside world \<open>'w\<close> (files, network, models, browser). A
  computation returns a value or throws (\<open>Inl\<close> the message of the error), and in both cases
  the state it has reached: what was inserted before a throw stays inserted.
\<close>

record 'w ingest_state =
  store :: "stored_chunk list"
  world :: 'w

type_synonym ('w, 'a) io = "'w ingest_state \<Rightarrow> (string + 'a) \<times> 'w ingest_state"

definition ret :: "'a \<Rightarrow> ('w, 'a) io" where
  "ret x s = (Inr x, s)"

definition throw :: "string \<Rightarrow> ('w, 'a) io" where
  "throw err s = (Inl err, s)"

definition bnd :: "('w, 'a) io \<Rightarrow> ('a \<Rightarrow> ('w, 'b) io) \<Rightarrow> ('w, 'b) io" where
  "bnd m f s = (case m s of (Inl err, s') \<Rightarrow> (Inl err, s') | (Inr x, s') \<Rightarrow> f x s')"

definition try_catch :: "('w, 'a) io \<Rightarrow> (string \<Rightarrow> ('w, 'a) io) \<Rightarrow> ('w, 'a) io" where
  "try_catch m handler s = (case m s of (Inl err, s') \<Rightarrow> handler err s' | (Inr x, s') \<Rightarrow> (Inr x, s'))"

text \<open>A call out of the program: it may change the world and may throw; it leaves the store.\<close>

definition outside :: "('w \<Rightarrow> (string + 'a) \<times> 'w) \<Rightarrow> ('w, 'a) io" where
  "outside call s = (case call (world s) of (r, w') \<Rightarrow> (r, s\<lparr> world := w' \<rparr>))"

fun map_io :: "('a \<Rightarrow> ('w, 'b) io) \<Rightarrow> 'a list \<Rightarrow> ('w, 'b list) io" where
  "map_io f [] = ret []"
| "map_io f (x # xs) = bnd (f x) (\<lambda>y. bnd (map_io f xs) (\<lambda>ys. ret (y # ys)))"

fun for_each :: "'a list \<Rightarrow> ('a \<Rightarrow> ('w, unit) io) \<Rightarrow> ('w, unit) io" where
  "for_each [] f = ret ()"
| "for_each (x # xs) f = bnd (f x) (\<lambda>u. for_each xs f)"

text \<open>\<open>xs[i]\<close> in JavaScript: \<open>undefined\<close> beyond the end.\<close>

definition js_nth :: "'a list \<Rightarrow> nat \<Rightarrow> 'a option" where
  "js_nth xs i = (if i < length xs then Some (xs ! i) else None)"

record IngestResult =
  result_filename :: string
  chunks_created :: nat
  success :: bool
  error :: "string option"

definition failed :: "string \<Rightarrow> string \<Rightarrow> IngestResult" where
  "failed name message =
     \<lparr> result_filename = name, chunks_created = 0, success = False, error = Some message \<rparr>"

definition succeeded :: "string \<Rightarrow> nat \<Rightarrow> IngestResult" where
  "succeeded name n =
     \<lparr> result_filename = name, chunks_created = n, success = True, error = None \<rparr>"

text \<open>A parsed CSV row maps column names to values; the schema names the columns it detected.\<close>

record csv_schema =
  schema_detected :: bool
  schema_title :: "string option"
  schema_content :: "string option"
  schema_link :: "string option"
  schema_collection :: "string option"
  schema_html :: "string option"
  schema_thesis :: "string option"

text \<open>
  The functions ingestion imports from modules that are not among the sources, the two
  constants of \<open>constants/rag\<close>, the built-in input and output it uses, and the pages the
  browser loads are parameters. A call that is awaited or does input and output reads and
  changes the world and may throw; the text utilities are functions of their argument.
  \<open>page_innerText\<close> is \<open>page.innerText('body')\<close> and \<open>squeeze\<close> the three \<open>replace\<close> calls that
  follow it; \<open>page_description\<close> is the content of the description meta tag, when there is
  one; \<open>fetch_outcome\<close> is what \<open>fetchSitemap\<close> gives for a URL in a world.
\<close>

record 'w ingest_env =
  CHUNK_SIZE :: nat
  USE_SEMANTIC_CHUNKING :: bool
  CODE_FILE_EXTENSIONS :: "string set"
  extractTextFromFile :: "string \<Rightarrow> 'w \<Rightarrow> (string + string) \<times> 'w"
  semanticChunking :: "string \<Rightarrow> 'w \<Rightarrow> (string + string list) \<times> 'w"
  chunkText :: "string \<Rightarrow> string list"
  normalizeForEmbedding :: "string \<Rightarrow> string"
  stripHtml :: "string \<Rightarrow> string"
  generateEmbeddings :: "string list \<Rightarrow> 'w \<Rightarrow> (string + vector list) \<times> 'w"
  generateQuestions :: "string \<Rightarrow> 'w \<Rightarrow> (string + string list) \<times> 'w"
  initializeQuestionGenerator :: "'w \<Rightarrow> (string + unit) \<times> 'w"
  ingestCodeFile :: "string \<Rightarrow> ('w, IngestResult) io"
  readFileText :: "string \<Rightarrow> 'w \<Rightarrow> (string + string) \<times> 'w"
  parseCSV :: "string \<Rightarrow> (string \<times> string) list list"
  detectCSVSchema :: "string list \<Rightarrow> csv_schema"
  globScan :: "string \<Rightarrow> 'w \<Rightarrow> (string + string list) \<times> 'w"
  fetch_outcome :: "'w \<Rightarrow> string \<Rightarrow> string + string"
  isValidUrl :: "string \<Rightarrow> bool"
  normalizeUrl :: "string \<Rightarrow> string"
  chromium_launch :: "'w \<Rightarrow> (string + unit) \<times> 'w"
  browser_newPage :: "'w \<Rightarrow> (string + unit) \<times> 'w"
  page_goto :: "string \<Rightarrow> 'w \<Rightarrow> (string + unit) \<times> 'w"
  page_waitForTimeout :: "'w \<Rightarrow> (string + unit) \<times> 'w"
  page_title :: "'w \<Rightarrow> (string + string) \<times> 'w"
  page_evaluate :: "'w \<Rightarrow> (string + unit) \<times> 'w"
  page_innerText :: "'w \<Rightarrow> (string + string) \<times> 'w"
  page_description :: "'w \<Rightarrow> (string + string option) \<times> 'w"
  squeeze :: "string \<Rightarrow> string"

text \<open>
  Modelled from the spec: \<open>insertDocument\<close> of \<open>store/schema\<close> is not among the sources. The
  spec's insert stores one chunk record, with its content vector and zero or more question
  vectors, and returns a generated identifier; identifiers grow with each insert.
\<close>

definition insertDocument ::
    "string \<Rightarrow> string \<Rightarrow> string \<Rightarrow> vector option \<Rightarrow> nat \<Rightarrow> nat \<Rightarrow> string list \<Rightarrow> vector list
      \<Rightarrow> ('w, nat) io" where
  "insertDocument name fullText chunk chunkEmbedding chunkIdx chunkSize qs qEmbeddings s =
     (Inr (Suc (length (store s))),
      s\<lparr> store := store s @
            [\<lparr> doc_id = Suc (length (store s)), doc_filename = name, doc_content = fullText,
               doc_chunk_text = chunk, doc_embedding = chunkEmbedding, doc_chunk_index = chunkIdx,
               doc_chunk_size = chunkSize, questions = qs, questionEmbeddings = qEmbeddings \<rparr>] \<rparr>)"

subsection \<open>Paths\<close>

text \<open>
  \<open>s.split(c).pop()\<close> is the part of \<open>s\<close> after the last \<open>c\<close>, all of \<open>s\<close> when \<open>c\<close> does not
  occur. \<open>toLowerCase\<close> is given on the letters a \<open>char\<close> can hold (ASCII and Latin-1).
\<close>

definition last_segment :: "char \<Rightarrow> string \<Rightarrow> string" where
  "last_segment c s = rev (takeWhile (\<lambda>x. x \<noteq> c) (rev s))"

definition lower_char :: "char \<Rightarrow> char" where
  "lower_char c =
     (let n = (of_char c :: nat)
      in if (65 \<le> n \<and> n \<le> 90) \<or> (192 \<le> n \<and> n \<le> 222 \<and> n \<noteq> 215) then char_of (n + 32) else c)"

definition toLowerCase :: "string \<Rightarrow> string" where
  "toLowerCase s = map lower_char s"

definition basename :: "string \<Rightarrow> string" where
  "basename filePath =
     (let seg = last_segment (CHR ''/'') filePath in if seg = [] then filePath else seg)"

definition file_ext :: "string \<Rightarrow> string" where
  "file_ext filePath = last_segment (CHR ''.'') (toLowerCase filePath)"

subsection \<open>The steps the three ingestion paths share\<close>

text \<open>
  The chunks of a text: the text itself when it is no longer than \<open>CHUNK_SIZE\<close>, else what
  the configured splitter returns.
\<close>

definition chunks_of :: "'w ingest_env \<Rightarrow> string \<Rightarrow> ('w, string list) io" where
  "chunks_of env fullText =
     (if length fullText > CHUNK_SIZE env
      then (if USE_SEMANTIC_CHUNKING env then outside (semanticChunking env fullText)
            else ret (chunkText env fullText))
      else ret [fullText])"

text \<open>The embeddings of a chunk's questions: no call to the service when there are none.\<close>

definition embed_questions :: "'w ingest_env \<Rightarrow> string list \<Rightarrow> ('w, vector list) io" where
  "embed_questions env qs =
     (if length qs > 0 then outside (generateEmbeddings env (map (normalizeForEmbedding env) qs))
      else ret [])"

subsection \<open>ingestFile\<close>

text \<open>
  The loop that inserts the chunks of a file, by index: the chunk, its content embedding, its
  questions and their embeddings are read at the same index of four arrays.
\<close>

definition insert_file_chunks ::
    "string \<Rightarrow> string \<Rightarrow> string list \<Rightarrow> vector list \<Rightarrow> string list list \<Rightarrow> vector list list
      \<Rightarrow> ('w, unit) io" where
  "insert_file_chunks name fullText chunks contentEmbeddings allQuestions allQuestionEmbeddings =
     for_each [0..<length chunks]
       (\<lambda>i. bnd (insertDocument name fullText (chunks ! i) (js_nth contentEmbeddings i) i
                    (length (chunks ! i)) (allQuestions ! i) (allQuestionEmbeddings ! i))
                 (\<lambda>documentId. ret ()))"

definition ingest_text_file :: "'w ingest_env \<Rightarrow> string \<Rightarrow> ('w, IngestResult) io" where
  "ingest_text_file env filePath =
     try_catch
       (bnd (outside (extractTextFromFile env filePath)) (\<lambda>fullText.
          if fullText = [] \<or> length (trim fullText) = 0
          then ret (failed (basename filePath) ''No text content found in file'')
          else
            bnd (chunks_of env fullText) (\<lambda>chunks.
              if length chunks = 0
              then ret (failed (basename filePath) ''No valid chunks created from content'')
              else
                bnd (outside (initializeQuestionGenerator env)) (\<lambda>u.
                bnd (outside (generateEmbeddings env (map (normalizeForEmbedding env) chunks)))
                  (\<lambda>contentEmbeddings.
                bnd (map_io (\<lambda>chunk. outside (generateQuestions env chunk)) chunks) (\<lambda>allQuestions.
                bnd (map_io (embed_questions env) allQuestions) (\<lambda>allQuestionEmbeddings.
                bnd (insert_file_chunks (basename filePath) fullText chunks contentEmbeddings
                       allQuestions allQuestionEmbeddings) (\<lambda>u.
                ret (succeeded (basename filePath) (length chunks))))))))))
       (\<lambda>err. throw (''Failed to ingest file '' @ basename filePath @ '': '' @ err))"

subsection \<open>ingestCSV\<close>

text \<open>\<open>schema.col ? row[schema.col] || '' : ''\<close>, and \<open>parts.join(sep)\<close>.\<close>

definition column_value :: "string option \<Rightarrow> (string \<times> string) list \<Rightarrow> string" where
  "column_value col row =
     (case col of
        None \<Rightarrow> []
      | Some c \<Rightarrow> if c = [] then [] else (case map_of row c of None \<Rightarrow> [] | Some v \<Rightarrow> v))"

fun join :: "string \<Rightarrow> string list \<Rightarrow> string" where
  "join sep [] = []"
| "join sep [x] = x"
| "join sep (x # y # rest) = x @ sep @ join sep (y # rest)"

definition chunk_doc_id :: "string \<Rightarrow> nat \<Rightarrow> nat \<Rightarrow> string" where
  "chunk_doc_id docIdentifier chunkIdx n =
     (if n > 1
      then docIdentifier @ '' [Chunk '' @ string_of_nat (chunkIdx + 1) @ ''/'' @ string_of_nat n @ '']''
      else docIdentifier)"

text \<open>One chunk of a CSV row: its embedding, its questions, their embeddings, the insert.\<close>

definition ingest_csv_chunk ::
    "'w ingest_env \<Rightarrow> string \<Rightarrow> string \<Rightarrow> string \<Rightarrow> string list \<Rightarrow> nat \<Rightarrow> ('w, unit) io" where
  "ingest_csv_chunk env docIdentifier combinedText thesisField chunks chunkIdx =
     bnd (outside (generateEmbeddings env [normalizeForEmbedding env (chunks ! chunkIdx)]))
       (\<lambda>embeddings.
     bnd (if thesisField \<noteq> [] \<and> trim thesisField \<noteq> [] then ret [trim thesisField]
          else outside (generateQuestions env (chunks ! chunkIdx))) (\<lambda>qs.
     bnd (embed_questions env qs) (\<lambda>qEmbeddings.
     bnd (insertDocument (chunk_doc_id docIdentifier chunkIdx (length chunks)) combinedText
            (chunks ! chunkIdx) (js_nth embeddings 0) chunkIdx (length (chunks ! chunkIdx))
            qs qEmbeddings) (\<lambda>documentId. ret ()))))"

text \<open>
  One row: the text of its detected columns, combined; an empty row is skipped. The result
  is the number of chunks the row added to \<open>processedCount\<close>.
\<close>

definition ingest_csv_row ::
    "'w ingest_env \<Rightarrow> string \<Rightarrow> csv_schema \<Rightarrow> nat \<times> (string \<times> string) list \<Rightarrow> ('w, nat) io" where
  "ingest_csv_row env name schema indexed_row =
     (case indexed_row of (rowIdx, row) \<Rightarrow>
        let title = column_value (schema_title schema) row;
            contentField = column_value (schema_content schema) row;
            link = column_value (schema_link schema) row;
            collection = column_value (schema_collection schema) row;
            htmlField = column_value (schema_html schema) row;
            thesisField = column_value (schema_thesis schema) row;
            contentClean = stripHtml env contentField;
            htmlClean = (if htmlField \<noteq> [] then stripHtml env htmlField else []);
            textParts = [title, contentClean]
              @ (if htmlClean \<noteq> [] \<and> htmlClean \<noteq> contentClean then [htmlClean] else [])
              @ (if link \<noteq> [] then [link] else [])
              @ (if collection \<noteq> [] then [collection] else []);
            combinedText = join [CHR 0x0A, CHR 0x0A] (filter (\<lambda>part. trim part \<noteq> []) textParts);
            docIdentifier =
              (if title \<noteq> [] then name @ '' - '' @ title
               else name @ '' - Row '' @ string_of_nat (rowIdx + 1))
        in if trim combinedText = [] then ret 0
           else
             bnd (if thesisField \<noteq> [] \<and> trim thesisField \<noteq> [] then ret [combinedText]
                  else chunks_of env combinedText) (\<lambda>chunks.
             bnd (for_each [0..<length chunks]
                    (ingest_csv_chunk env docIdentifier combinedText thesisField chunks)) (\<lambda>u.
             ret (length chunks))))"

definition schema_of_rows :: "'w ingest_env \<Rightarrow> (string \<times> string) list list \<Rightarrow> csv_schema" where
  "schema_of_rows env rows =
     detectCSVSchema env (case rows of [] \<Rightarrow> [] | row # rest \<Rightarrow> map fst row)"

definition has_column :: "string option \<Rightarrow> bool" where
  "has_column col = (case col of None \<Rightarrow> False | Some c \<Rightarrow> c \<noteq> [])"

definition ingestCSV :: "'w ingest_env \<Rightarrow> string \<Rightarrow> ('w, IngestResult) io" where
  "ingestCSV env filePath =
     try_catch
       (bnd (outside (readFileText env filePath)) (\<lambda>fileText.
          let rows = parseCSV env fileText
          in if length rows = 0 then ret (failed (basename filePath) ''No rows found in CSV file'')
             else
               bnd (if \<not> has_column (schema_thesis (schema_of_rows env rows))
                    then outside (initializeQuestionGenerator env) else ret ()) (\<lambda>u.
               bnd (map_io (ingest_csv_row env (basename filePath) (schema_of_rows env rows))
                      (zip [0..<length rows] rows)) (\<lambda>counts.
               ret (succeeded (basename filePath) (sum_list counts))))))
       (\<lambda>err. throw (''Failed to ingest CSV file '' @ basename filePath @ '': '' @ err))"

definition ingestFile :: "'w ingest_env \<Rightarrow> string \<Rightarrow> ('w, IngestResult) io" where
  "ingestFile env filePath =
     (if file_ext filePath = ''csv'' then ingestCSV env filePath
      else if file_ext filePath \<noteq> [] \<and> file_ext filePath \<in> CODE_FILE_EXTENSIONS env
      then ingestCodeFile env filePath
      else ingest_text_file env filePath)"

subsection \<open>ingestDirectory\<close>

text \<open>
  The loop over the files found pushes each result on \<open>results\<close>. The whole body is in one
  \<open>try\<close> block whose \<open>catch\<close> returns \<open>results\<close> as it stands: an error thrown by
  \<open>ingestFile\<close> ends the loop there.
\<close>

fun ingest_files :: "'w ingest_env \<Rightarrow> string \<Rightarrow> string list \<Rightarrow> IngestResult list \<Rightarrow> ('w, IngestResult list) io" where
  "ingest_files env directoryPath [] results = ret results"
| "ingest_files env directoryPath (file # files) results =
     (\<lambda>s. case ingestFile env (directoryPath @ ''/'' @ file) s of
             (Inl err, s') \<Rightarrow> (Inr results, s')
           | (Inr result, s') \<Rightarrow> ingest_files env directoryPath files (results @ [result]) s')"

definition ingestDirectory :: "'w ingest_env \<Rightarrow> string \<Rightarrow> ('w, IngestResult list) io" where
  "ingestDirectory env directoryPath =
     try_catch
       (bnd (outside (globScan env directoryPath)) (\<lambda>files.
          if length files = 0 then ret [] else ingest_files env directoryPath files []))
       (\<lambda>err. ret [])"

subsection \<open>ingestSitemap\<close>

text \<open>One chunk of a page: its embedding, its questions, their embeddings, the insert.\<close>

definition ingest_page_chunk ::
    "'w ingest_env \<Rightarrow> string \<Rightarrow> string \<Rightarrow> string list \<Rightarrow> nat \<Rightarrow> ('w, unit) io" where
  "ingest_page_chunk env pageTitle pageText chunks chunkIdx =
     bnd (outside (generateEmbeddings env [normalizeForEmbedding env (chunks ! chunkIdx)]))
       (\<lambda>embeddings.
     bnd (outside (generateQuestions env (chunks ! chunkIdx))) (\<lambda>qs.
     bnd (embed_questions env qs) (\<lambda>qEmbeddings.
     bnd (insertDocument (chunk_doc_id pageTitle chunkIdx (length chunks)) pageText
            (chunks ! chunkIdx) (js_nth embeddings 0) chunkIdx (length (chunks ! chunkIdx))
            qs qEmbeddings) (\<lambda>documentId. ret ()))))"

text \<open>
  Loading a page and reading it: navigation, the wait, the title, the removal of the
  elements that are not content, the text of the body, and the description meta tag, whose
  read has a \<open>try\<close> of its own that leaves the description empty. The result is the title
  and the text of the body.
\<close>

definition load_page :: "'w ingest_env \<Rightarrow> string \<Rightarrow> ('w, string \<times> string) io" where
  "load_page env url =
     bnd (outside (page_goto env url)) (\<lambda>u.
     bnd (outside (page_waitForTimeout env)) (\<lambda>u.
     bnd (outside (page_title env)) (\<lambda>pageTitle.
     bnd (outside (page_evaluate env)) (\<lambda>u.
     bnd (outside (page_innerText env)) (\<lambda>bodyText.
     bnd (try_catch (outside (page_description env)) (\<lambda>err. ret None)) (\<lambda>description.
     ret (pageTitle, bodyText)))))))"

text \<open>
  The body of the loop over the URLs of the sitemap: the result it pushes. An invalid URL is
  skipped with a failure result. Everything from loading the page to the last insert is in a
  \<open>try\<close> block whose \<open>catch\<close> pushes a failure result with the message of the error.
\<close>

definition ingest_sitemap_url :: "'w ingest_env \<Rightarrow> SitemapUrl \<Rightarrow> ('w, IngestResult) io" where
  "ingest_sitemap_url env sitemapEntry =
     (if \<not> isValidUrl env (loc sitemapEntry) then ret (failed (loc sitemapEntry) ''Invalid URL'')
      else
        try_catch
          (bnd (load_page env (loc sitemapEntry)) (\<lambda>loaded.
             let mainText = trim (squeeze env (snd loaded));
                 title = (if fst loaded = [] then ''Untitled'' else fst loaded)
             in if mainText = [] \<or> length (trim mainText) = 0
                then ret (failed (normalizeUrl env (loc sitemapEntry)) ''No content extracted'')
                else
                  bnd (chunks_of env mainText) (\<lambda>chunks.
                  bnd (for_each [0..<length chunks] (ingest_page_chunk env title mainText chunks))
                    (\<lambda>u.
                  ret (succeeded (normalizeUrl env (loc sitemapEntry)) (length chunks))))))
          (\<lambda>err. ret (failed (normalizeUrl env (loc sitemapEntry)) err)))"

text \<open>
  \<open>ingestSitemap\<close>: the URLs of the sitemap, the browser, its page and the question
  generator, then the loop. An error outside the loop's own \<open>try\<close> is rethrown as an
  ingestion error. The \<open>finally\<close> block closes the page and the browser and swallows their
  errors; it is left out.
\<close>

definition ingestSitemap :: "'w ingest_env \<Rightarrow> string \<Rightarrow> ('w, IngestResult list) io" where
  "ingestSitemap env sitemapUrl =
     try_catch
       (\<lambda>s. (let sitemapUrls = extractAllUrls (fetch_outcome env (world s)) sitemapUrl 3
              in if length sitemapUrls = 0 then ret []
                 else
                   bnd (outside (chromium_launch env)) (\<lambda>u.
                   bnd (outside (browser_newPage env)) (\<lambda>u.
                   bnd (outside (initializeQuestionGenerator env)) (\<lambda>u.
                   map_io (ingest_sitemap_url env) sitemapUrls)))) s)
       (\<lambda>err. throw (''Failed to ingest sitemap '' @ sitemapUrl @ '': '' @ err))"

subsection \<open>What ingestion is measured against\<close>

text \<open>
  \<open>grows P m\<close>: whatever \<open>m\<close> does, also when it throws, the store afterwards is the store
  before with new records at its end, each satisfying \<open>P\<close>. \<open>returns Q m\<close>: a value \<open>m\<close>
  returns satisfies \<open>Q\<close>.
\<close>

definition grows :: "(stored_chunk \<Rightarrow> bool) \<Rightarrow> ('w, 'a) io \<Rightarrow> bool" where
  "grows P m = (\<forall>s r s'. m s = (r, s') \<longrightarrow> (\<exists>new. store s' = store s @ new \<and> list_all P new))"

definition returns :: "('a \<Rightarrow> bool) \<Rightarrow> ('w, 'a) io \<Rightarrow> bool" where
  "returns Q m = (\<forall>s x s'. m s = (Inr x, s') \<longrightarrow> Q x)"

text \<open>
  The contract of the embedding adapter: a batch of \<open>n\<close> texts yields \<open>n\<close> vectors. A
  record is aligned when it has as many question embeddings as questions, none when it has
  no question, and otherwise the embeddings are what the adapter returned, in some world,
  for the normalized questions in their order.
\<close>

definition adapter_contract :: "'w ingest_env \<Rightarrow> bool" where
  "adapter_contract env =
     (\<forall>texts w vectors w'. generateEmbeddings env texts w = (Inr vectors, w')
        \<longrightarrow> length vectors = length texts)"

definition embedded_from :: "'w ingest_env \<Rightarrow> string list \<Rightarrow> vector list \<Rightarrow> bool" where
  "embedded_from env qs qEmbeddings =
     (length qEmbeddings = length qs
      \<and> (if qs = [] then qEmbeddings = []
         else (\<exists>w w'. generateEmbeddings env (map (normalizeForEmbedding env) qs) w
                        = (Inr qEmbeddings, w'))))"

definition aligned :: "'w ingest_env \<Rightarrow> stored_chunk \<Rightarrow> bool" where
  "aligned env r = embedded_from env (questions r) (questionEmbeddings r)"

text \<open>
  \<open>ends m s T R\<close>: run from the state \<open>s\<close>, \<open>m\<close> either throws an error \<open>err\<close> in a state
  \<open>s'\<close> with \<open>T err s'\<close>, or returns a value \<open>x\<close> in a state \<open>s'\<close> with \<open>R x s'\<close>.
\<close>

definition ends ::
    "('w, 'a) io \<Rightarrow> 'w ingest_state \<Rightarrow> (string \<Rightarrow> 'w ingest_state \<Rightarrow> bool)
      \<Rightarrow> ('a \<Rightarrow> 'w ingest_state \<Rightarrow> bool) \<Rightarrow> bool" where
  "ends m s T R = (case m s of (Inl err, s') \<Rightarrow> T err s' | (Inr x, s') \<Rightarrow> R x s')"

text \<open>
  The content vector stored with a chunk: the first of the vectors the adapter returned, in
  some world, for the normalized text of the chunk alone (\<open>None\<close> if it returned none).
\<close>

definition content_vector_of :: "'w ingest_env \<Rightarrow> string \<Rightarrow> vector option \<Rightarrow> bool" where
  "content_vector_of env chunk e =
     (\<exists>vectors w w'. generateEmbeddings env [normalizeForEmbedding env chunk] w = (Inr vectors, w')
        \<and> e = js_nth vectors 0)"




text \<open>
  An environment for the examples. The world is the number of calls made out of the program
  so far and the URL of the page the browser shows. The directory \<open>docs\<close> holds
  \<open>notes.txt\<close>, \<open>broken.pdf\<close>, whose text extraction throws, and \<open>more.txt\<close>; the file
  \<open>docs/blank.txt\<close> holds only white space. The sitemap \<open>https://x/map.xml\<close> lists three
  pages: the first does not load, the second has no text, the third has one sentence.
\<close>

definition example_pages :: "string \<Rightarrow> string + string" where
  "example_pages url =
     (if url = ''https://x/map.xml''
      then Inr (''<urlset><url><loc>https://x/down</loc></url><url><loc>https://x/blank</loc></url>''
                @ ''<url><loc>https://x/p</loc></url></urlset>'')
      else cyclic_site url)"

definition tick :: "nat \<times> string \<Rightarrow> nat \<times> string" where
  "tick w = (Suc (fst w), snd w)"

definition example_ingest_env :: "(nat \<times> string) ingest_env" where
  "example_ingest_env =
     \<lparr> CHUNK_SIZE = 1000, USE_SEMANTIC_CHUNKING = False, CODE_FILE_EXTENSIONS = {''ts'', ''py''},
       extractTextFromFile = (\<lambda>path w.
          (if path = ''docs/broken.pdf'' then Inl ''Invalid PDF structure''
           else if path = ''docs/blank.txt'' then Inr [CHR 0x20, CHR 0x0A]
           else Inr ''Vectors are compared by cosine similarity.'', tick w)),
       semanticChunking = (\<lambda>t w. (Inr [t], tick w)),
       chunkText = (\<lambda>t. [t]),
       normalizeForEmbedding = toLowerCase,
       stripHtml = (\<lambda>t. t),
       generateEmbeddings = (\<lambda>texts w. (Inr (map (\<lambda>t. [real (length t), 1]) texts), tick w)),
       generateQuestions = (\<lambda>t w. (Inr [''What is compared?'', ''How?''], tick w)),
       initializeQuestionGenerator = (\<lambda>w. (Inr (), tick w)),
       ingestCodeFile = (\<lambda>path. ret (succeeded (basename path) 0)),
       readFileText = (\<lambda>path w. (Inr ''title,content'', tick w)),
       parseCSV = (\<lambda>t. [[(''title'', ''Cosine''), (''content'', ''Similarity of two vectors.'')]]),
       detectCSVSchema = (\<lambda>columns.
          \<lparr> schema_detected = True, schema_title = Some ''title'', schema_content = Some ''content'',
            schema_link = None, schema_collection = None, schema_html = None,
            schema_thesis = None \<rparr>),
       globScan = (\<lambda>dir w. (Inr [''notes.txt'', ''broken.pdf'', ''more.txt''], tick w)),
       fetch_outcome = (\<lambda>w. example_pages),
       isValidUrl = (\<lambda>url. take 4 url = ''http''),
       normalizeUrl = (\<lambda>url. url),
       chromium_launch = (\<lambda>w. (Inr (), tick w)),
       browser_newPage = (\<lambda>w. (Inr (), tick w)),
       page_goto = (\<lambda>url w.
          (if url = ''https://x/down'' then Inl ''Timeout 30000ms exceeded'' else Inr (),
           (Suc (fst w), url))),
       page_waitForTimeout = (\<lambda>w. (Inr (), tick w)),
       page_title = (\<lambda>w. (Inr ''Cosine similarity'', tick w)),
       page_evaluate = (\<lambda>w. (Inr (), tick w)),
       page_innerText = (\<lambda>w.
          (if snd w = ''https://x/blank'' then Inr [CHR 0x20, CHR 0x20]
           else Inr ''  Vectors are compared by cosine similarity.  '', tick w)),
       page_description = (\<lambda>w. (Inr None, tick w)),
       squeeze = (\<lambda>t. t) \<rparr>"

definition empty_store :: "(nat \<times> string) ingest_state" where
  "empty_store = \<lparr> store = [], world = (0, []) \<rparr>"

definition page_entry :: "string \<Rightarrow> SitemapUrl" where
  "page_entry url = \<lparr> loc = url, lastmod = None, changefreq = None, priority = None \<rparr>"








section \<open>Score fusion of the retrieval engine\<close>

text \<open>
  Modelled from the spec: the scoring code (\<open>searchSimilar\<close> of \<open>services/search\<close>) is not among
  the sources. The spec's retrieval engine compares the query vector with the content vector
  and with every question vector of a chunk by cosine similarity; the question score of a
  chunk is the maximum similarity across its own question vectors, and its fused score is the
  maximum of its content score and its question score. The spec gives no question score to
  a chunk without question vectors: there the fused score is the content score. Vectors hold
  real numbers here, not floating-point numbers.
\<close>

definition dot :: "vector \<Rightarrow> vector \<Rightarrow> real" where
  "dot a b = sum_list (map (\<lambda>(x, y). x * y) (zip a b))"

definition cosine_similarity :: "vector \<Rightarrow> vector \<Rightarrow> real" where
  "cosine_similarity a b = dot a b / (sqrt (dot a a) * sqrt (dot b b))"

record chunk_vectors =
  content_vector :: vector
  question_vectors :: "vector list"

definition content_score :: "vector \<Rightarrow> chunk_vectors \<Rightarrow> real" where
  "content_score query c = cosine_similarity query (content_vector c)"

fun best_similarity :: "vector \<Rightarrow> vector list \<Rightarrow> real option" where
  "best_similarity query [] = None"
| "best_similarity query (v # vs) =
     (case best_similarity query vs of
        None \<Rightarrow> Some (cosine_similarity query v)
      | Some m \<Rightarrow> Some (max (cosine_similarity query v) m))"

definition question_score :: "vector \<Rightarrow> chunk_vectors \<Rightarrow> real option" where
  "question_score query c = best_similarity query (question_vectors c)"

definition fused_score :: "vector \<Rightarrow> chunk_vectors \<Rightarrow> real" where
  "fused_score query c =
     (case question_score query c of
        None \<Rightarrow> content_score query c
      | Some m \<Rightarrow> max (content_score query c) m)"

definition add_question :: "vector \<Rightarrow> chunk_vectors \<Rightarrow> chunk_vectors" where
  "add_question v c = c\<lparr> question_vectors := question_vectors c @ [v] \<rparr>"

definition example_chunk :: chunk_vectors where
  "example_chunk = \<lparr> content_vector = [0, 1], question_vectors = [[0, 1], [1, 0]] \<rparr>"



section \<open>Properties of the sitemap traversal\<close>

lemma fetch_inv_step:
  assumes "fetch_inv maxDepth st" and "\<not> int depth > maxDepth" and "url \<notin> visitedSitemaps st"
  shows "fetch_inv maxDepth (st\<lparr> visitedSitemaps := insert url (visitedSitemaps st),
                      fetched := fetched st @ [(url, depth)] \<rparr>)"
  using assms by (auto simp: fetch_inv_def)

lemma fetch_inv_allUrls: "fetch_inv maxDepth (st\<lparr> allUrls := us \<rparr>) = fetch_inv maxDepth st"
  by (simp add: fetch_inv_def)

lemma fetch_inv_preserved:
  "fetch_inv maxDepth st \<Longrightarrow> fetch_inv maxDepth (extractRecursive fetchSitemap maxDepth url depth st)"
  "fetch_inv maxDepth st \<Longrightarrow> fetch_inv maxDepth (extractNested fetchSitemap maxDepth urls depth st)"
proof (induction fetchSitemap maxDepth url depth st and fetchSitemap maxDepth urls depth st
    rule: extractRecursive_extractNested.induct)
  case (1 fetchSitemap maxDepth url depth st)
  show ?case
  proof (cases "int depth > maxDepth \<or> url \<in> visitedSitemaps st")
    case True
    with 1(2) show ?thesis by (simp add: extractRecursive.simps)
  next
    case False
    define st1 where "st1 = st\<lparr> visitedSitemaps := insert url (visitedSitemaps st),
                      fetched := fetched st @ [(url, depth)] \<rparr>"
    have inv1: "fetch_inv maxDepth st1"
      unfolding st1_def using 1(2) False by (intro fetch_inv_step) auto
    show ?thesis
    proof (cases "fetchSitemap url")
      case (Inl err)
      with False inv1 show ?thesis by (simp add: extractRecursive.simps st1_def Let_def)
    next
      case (Inr xmlContent)
      show ?thesis
      proof (cases "isSitemapIndex xmlContent")
        case True
        from 1(1) [OF False st1_def Inr True inv1] False Inr True
        show ?thesis by (simp add: extractRecursive.simps [of _ _ url] st1_def Let_def)
      next
        case nf: False
        with False Inr inv1 show ?thesis
          by (simp add: extractRecursive.simps [of _ _ url] st1_def Let_def fetch_inv_allUrls)
      qed
    qed
  qed
next
  case (2 fetchSitemap maxDepth depth st)
  then show ?case by simp
next
  case (3 fetchSitemap maxDepth nestedUrl rest depth st)
  then show ?case by simp
qed

lemma remaining_Suc: "\<not> int depth > maxDepth \<Longrightarrow>
    nat (maxDepth + 1 - int depth) = Suc (nat (maxDepth + 1 - int (depth + 1)))"
  by simp

lemma fetched_length_bound:
  assumes b: "\<forall>u xml. fetchSitemap u = Inr xml \<longrightarrow> length (parseSitemapIndex xml) \<le> b"
  shows "length (fetched (extractRecursive fetchSitemap maxDepth url depth st))
           \<le> length (fetched st) + fetch_bound b (nat (maxDepth + 1 - int depth))"
    and "length (fetched (extractNested fetchSitemap maxDepth urls depth st))
           \<le> length (fetched st) + length urls * fetch_bound b (nat (maxDepth + 1 - int depth))"
  using b
proof (induction fetchSitemap maxDepth url depth st and fetchSitemap maxDepth urls depth st
    rule: extractRecursive_extractNested.induct)
  case (1 fetchSitemap maxDepth url depth st)
  show ?case
  proof (cases "int depth > maxDepth \<or> url \<in> visitedSitemaps st")
    case True
    then show ?thesis by (simp add: extractRecursive.simps)
  next
    case False
    define st1 where "st1 = st\<lparr> visitedSitemaps := insert url (visitedSitemaps st),
                      fetched := fetched st @ [(url, depth)] \<rparr>"
    define k where "k = nat (maxDepth + 1 - int (depth + 1))"
    from False have rem: "nat (maxDepth + 1 - int depth) = Suc k"
      unfolding k_def by (intro remaining_Suc) simp
    have len1: "length (fetched st1) = Suc (length (fetched st))" by (simp add: st1_def)
    show ?thesis
    proof (cases "fetchSitemap url")
      case (Inl err)
      with False show ?thesis by (simp add: extractRecursive.simps Let_def rem)
    next
      case (Inr xmlContent)
      show ?thesis
      proof (cases "isSitemapIndex xmlContent")
        case True
        have "length (fetched (extractNested fetchSitemap maxDepth (parseSitemapIndex xmlContent) (depth + 1) st1))
            \<le> length (fetched st1) + length (parseSitemapIndex xmlContent) * fetch_bound b k"
          unfolding k_def by (rule 1(1) [OF False st1_def Inr True 1(2)])
        also have "\<dots> \<le> length (fetched st1) + b * fetch_bound b k"
          using 1(2) Inr by simp
        finally show ?thesis
          using False Inr True
          by (simp add: extractRecursive.simps [of _ _ url] st1_def [symmetric] Let_def rem len1)
      next
        case nf: False
        with False Inr show ?thesis
          by (simp add: extractRecursive.simps [of _ _ url] Let_def rem)
      qed
    qed
  qed
next
  case (2 fetchSitemap maxDepth depth st)
  then show ?case by simp
next
  case (3 fetchSitemap maxDepth nestedUrl rest depth st)
  from 3(1) [OF 3(3)] 3(2) [OF 3(3)] show ?case by simp
qed

text \<open>
  Claim C10. \<open>extractAllUrls\<close> terminates on every input URL and every sitemap graph, cyclic
  or not: the recursion is a total function (its termination is proved with the definition,
  by the remaining depth and the length of the list of nested sitemaps). In its run no URL is
  fetched twice, every fetch happens at a depth of at most \<open>maxDepth\<close>, and when no
  sitemap index lists more than \<open>b\<close> nested sitemaps the number of fetches is at most
  \<open>1 + b + ... + b ^ maxDepth\<close>.
\<close>

theorem extractAllUrls_fetches_once_within_depth:
  "distinct (map fst (fetched (extractAllUrls_run fetchSitemap sitemapUrl maxDepth)))
   \<and> list_all (\<lambda>(url, depth). int depth \<le> maxDepth)
        (fetched (extractAllUrls_run fetchSitemap sitemapUrl maxDepth))
   \<and> ((\<forall>u xml. fetchSitemap u = Inr xml \<longrightarrow> length (parseSitemapIndex xml) \<le> b)
        \<longrightarrow> length (fetched (extractAllUrls_run fetchSitemap sitemapUrl maxDepth))
              \<le> fetch_bound b (nat (maxDepth + 1)))"
proof -
  have "fetch_inv maxDepth \<lparr> allUrls = [], visitedSitemaps = {}, fetched = [] \<rparr>"
    by (simp add: fetch_inv_def)
  then have "fetch_inv maxDepth (extractAllUrls_run fetchSitemap sitemapUrl maxDepth)"
    unfolding extractAllUrls_run_def by (rule fetch_inv_preserved(1))
  moreover have "length (fetched (extractAllUrls_run fetchSitemap sitemapUrl maxDepth))
      \<le> fetch_bound b (nat (maxDepth + 1))"
    if "\<forall>u xml. fetchSitemap u = Inr xml \<longrightarrow> length (parseSitemapIndex xml) \<le> b"
    using fetched_length_bound(1) [OF that, of maxDepth sitemapUrl 0
        "\<lparr> allUrls = [], visitedSitemaps = {}, fetched = [] \<rparr>"]
    by (simp add: extractAllUrls_run_def)
  ultimately show ?thesis by (simp add: fetch_inv_def)
qed

lemma cyclic_site_branching:
  "\<forall>u xml. cyclic_site u = Inr xml \<longrightarrow> length (parseSitemapIndex xml) \<le> 2"
proof (intro allI impI)
  fix u xml assume a: "cyclic_site u = Inr xml"
  have 1: "length (parseSitemapIndex ''<sitemapindex><sitemap><loc>B</loc></sitemap></sitemapindex>'') \<le> 2"
    by code_simp
  have 2: "length (parseSitemapIndex ''<sitemapindex><sitemap><loc>A</loc></sitemap><sitemap><loc>C</loc></sitemap></sitemapindex>'') \<le> 2"
    by code_simp
  have 3: "length (parseSitemapIndex ''<urlset><url><loc>https://x/p</loc></url></urlset>'') \<le> 2"
    by code_simp
  from a 1 2 3 show "length (parseSitemapIndex xml) \<le> 2"
    by (auto simp: cyclic_site_def split: if_splits)
qed

theorem extractAllUrls_fetches_once_within_depth_witness:
  "fetched (extractAllUrls_run cyclic_site ''A'' 3) = [(''A'', 0), (''B'', 1), (''C'', 2)]
   \<and> distinct (map fst (fetched (extractAllUrls_run cyclic_site ''A'' 3)))
   \<and> length (fetched (extractAllUrls_run cyclic_site ''A'' 3)) \<le> fetch_bound 2 (nat 4)"
proof -
  have e: "fetched (extractAllUrls_run cyclic_site ''A'' 3) = [(''A'', 0), (''B'', 1), (''C'', 2)]"
    by code_simp
  from extractAllUrls_fetches_once_within_depth [of cyclic_site "''A''" 3 2]
    cyclic_site_branching e
  show ?thesis by simp
qed

section \<open>Properties of the database merge\<close>

































section \<open>Properties of the HTTP handlers\<close>

lemma stream_start_shape:
  "stream_start s steps c =
     \<lparr> enqueued = enqueued c @ map (sseMessage s) (yielded steps)
          @ (case thrown steps of None \<Rightarrow> [] | Some err \<Rightarrow> [sseMessage s (ErrorEvent err)]),
       closed = True \<rparr>"
  by (induction s steps c rule: stream_start.induct) simp_all

lemma yielded_fails_after: "yielded (map Yield events @ Throw err # rest) = events"
  by (induction events) simp_all

lemma thrown_fails_after: "thrown (map Yield events @ Throw err # rest) = Some err"
  by (induction events) simp_all

lemma valid_field:
  "property body name = Inr (Some (Str q)) \<Longrightarrow> q \<noteq> [] \<Longrightarrow>
     truthy (Some (Str q)) \<and> typeof (Some (Str q)) = ''string''"
  by (simp add: truthy_def typeof_def)

lemma ask_stream_POST_valid:
  assumes "property body ''question'' = Inr (Some (Str q))" and "q \<noteq> []"
  shows "ask_stream_POST env (Inr body) =
     (Response 200 (EventStream
        (stream_start (JSON_stringify env)
           (streamQuestion env q (number_or (field body ''topK'') (DEFAULT_TOP_K env))
              (number_or (field body ''maxAnswerLength'') 800)
              (string_or_undefined (field body ''systemPrompt''))
              (number_or (field body ''similarityThreshold'') (SIMILARITY_THRESHOLD env)))
           \<lparr> enqueued = [], closed = False \<rparr>)),
      [StreamQuestion q (number_or (field body ''topK'') (DEFAULT_TOP_K env))
              (number_or (field body ''maxAnswerLength'') 800)
              (string_or_undefined (field body ''systemPrompt''))
              (number_or (field body ''similarityThreshold'') (SIMILARITY_THRESHOLD env))])"
  using assms by (simp add: ask_stream_POST_def truthy_def typeof_def Let_def)

text \<open>
  Claim C3. For a streaming ask request that passes validation, the stream carries the events
  the generator yields, in order, followed by at most one error event, and is then closed. In
  particular, when the model call fails after the events \<open>events\<close> (the generator yields them
  and then throws), the stream carries exactly those events followed by one error event and
  is closed: whatever the generator would have done after the failure never reaches the
  stream.
\<close>

theorem stream_error_event_is_terminal:
  assumes "property body ''question'' = Inr (Some (Str q))" and "q \<noteq> []"
    and "snd (ask_stream_POST env (Inr body)) = [StreamQuestion q k m p t]"
  shows "fst (ask_stream_POST env (Inr body)) =
      Response 200 (EventStream
        \<lparr> enqueued = map (sseMessage (JSON_stringify env)) (yielded (streamQuestion env q k m p t))
            @ (case thrown (streamQuestion env q k m p t) of
                 None \<Rightarrow> []
               | Some err \<Rightarrow> [sseMessage (JSON_stringify env) (ErrorEvent err)]),
          closed = True \<rparr>)
    \<and> (streamQuestion env q k m p t = map Yield events @ Throw err # rest \<longrightarrow>
         fst (ask_stream_POST env (Inr body)) =
           Response 200 (EventStream
             \<lparr> enqueued = map (sseMessage (JSON_stringify env)) events
                 @ [sseMessage (JSON_stringify env) (ErrorEvent err)],
               closed = True \<rparr>))"
proof -
  note v = ask_stream_POST_valid [OF assms(1,2), of env]
  from assms(3) v have args:
    "k = number_or (field body ''topK'') (DEFAULT_TOP_K env)"
    "m = number_or (field body ''maxAnswerLength'') 800"
    "p = string_or_undefined (field body ''systemPrompt'')"
    "t = number_or (field body ''similarityThreshold'') (SIMILARITY_THRESHOLD env)"
    by simp_all
  have 1: "fst (ask_stream_POST env (Inr body)) =
      Response 200 (EventStream
        \<lparr> enqueued = map (sseMessage (JSON_stringify env)) (yielded (streamQuestion env q k m p t))
            @ (case thrown (streamQuestion env q k m p t) of
                 None \<Rightarrow> []
               | Some err \<Rightarrow> [sseMessage (JSON_stringify env) (ErrorEvent err)]),
          closed = True \<rparr>)"
    unfolding v args by (simp add: stream_start_shape)
  show ?thesis
  proof (intro conjI impI)
    show "fst (ask_stream_POST env (Inr body)) =
      Response 200 (EventStream
        \<lparr> enqueued = map (sseMessage (JSON_stringify env)) (yielded (streamQuestion env q k m p t))
            @ (case thrown (streamQuestion env q k m p t) of
                 None \<Rightarrow> []
               | Some err \<Rightarrow> [sseMessage (JSON_stringify env) (ErrorEvent err)]),
          closed = True \<rparr>)"
      by (rule 1)
  next
    assume "streamQuestion env q k m p t = map Yield events @ Throw err # rest"
    then show "fst (ask_stream_POST env (Inr body)) =
           Response 200 (EventStream
             \<lparr> enqueued = map (sseMessage (JSON_stringify env)) events
                 @ [sseMessage (JSON_stringify env) (ErrorEvent err)],
               closed = True \<rparr>)"
      unfolding 1 by (simp add: yielded_fails_after thrown_fails_after)
  qed
qed

lemma property_not_null: "body \<noteq> BodyNull \<Longrightarrow> property body name = Inr (field body name)"
  by (cases body) (simp_all add: property_def field_def)

lemma invalid_string_cases:
  "\<not> truthy v \<or> typeof v \<noteq> ''string'' \<longleftrightarrow> (\<forall>s. v = Some (Str s) \<longrightarrow> s = [])"
proof (cases v)
  case None
  then show ?thesis by (simp add: truthy_def)
next
  case (Some a)
  then show ?thesis by (cases a) (simp_all add: truthy_def typeof_def)
qed

text \<open>
  Claim C7, as amended. When the body of the request parses as JSON to a value other than
  \<open>null\<close>, a \<open>/search\<close> request whose \<open>query\<close> field is missing, falsy or not a string, and an
  \<open>/ask\<close> or \<open>/ask/stream\<close> request whose \<open>question\<close> field is missing, falsy or not a
  string, gets a response with status 400 and an error payload, and no service is called.
  A request whose body does not parse, or parses to \<open>null\<close>, gets status 500 instead, also
  with no service called. No handler calls a service more than once.
\<close>

theorem invalid_field_is_client_error:
  "(body \<noteq> BodyNull \<and> (\<not> truthy (field body ''query'') \<or> typeof (field body ''query'') \<noteq> ''string'')
      \<longrightarrow> search_POST env (Inr body)
            = (Response 400 (ErrorBody ''Missing or invalid 'query' parameter'' None), []))
   \<and> (body \<noteq> BodyNull \<and> (\<not> truthy (field body ''question'') \<or> typeof (field body ''question'') \<noteq> ''string'')
      \<longrightarrow> ask_POST env (Inr body)
            = (Response 400 (ErrorBody ''Missing or invalid 'question' parameter'' None), [])
          \<and> ask_stream_POST env (Inr body)
            = (Response 400 (ErrorBody ''Missing or invalid 'question' parameter'' None), []))
   \<and> search_POST env (Inl err) = (internal_error err, [])
   \<and> ask_POST env (Inl err) = (internal_error err, [])
   \<and> ask_stream_POST env (Inl err) = (internal_error err, [])
   \<and> search_POST env (Inr BodyNull) = (internal_error ''null is not an object'', [])
   \<and> ask_POST env (Inr BodyNull) = (internal_error ''null is not an object'', [])
   \<and> ask_stream_POST env (Inr BodyNull) = (internal_error ''null is not an object'', [])
   \<and> length (snd (search_POST env req_json)) \<le> 1
   \<and> length (snd (ask_POST env req_json)) \<le> 1
   \<and> length (snd (ask_stream_POST env req_json)) \<le> 1"
proof -
  have a: "search_POST env (Inr body)
            = (Response 400 (ErrorBody ''Missing or invalid 'query' parameter'' None), [])"
    if "body \<noteq> BodyNull" "\<not> truthy (field body ''query'') \<or> typeof (field body ''query'') \<noteq> ''string''"
    using that by (simp add: search_POST_def property_not_null)
  have b: "ask_POST env (Inr body)
            = (Response 400 (ErrorBody ''Missing or invalid 'question' parameter'' None), [])"
    if "body \<noteq> BodyNull" "\<not> truthy (field body ''question'') \<or> typeof (field body ''question'') \<noteq> ''string''"
    using that by (simp add: ask_POST_def property_not_null)
  have c: "ask_stream_POST env (Inr body)
            = (Response 400 (ErrorBody ''Missing or invalid 'question' parameter'' None), [])"
    if "body \<noteq> BodyNull" "\<not> truthy (field body ''question'') \<or> typeof (field body ''question'') \<noteq> ''string''"
    using that by (simp add: ask_stream_POST_def property_not_null)
  have d: "search_POST env (Inl err) = (internal_error err, [])"
    "ask_POST env (Inl err) = (internal_error err, [])"
    "ask_stream_POST env (Inl err) = (internal_error err, [])"
    "search_POST env (Inr BodyNull) = (internal_error ''null is not an object'', [])"
    "ask_POST env (Inr BodyNull) = (internal_error ''null is not an object'', [])"
    "ask_stream_POST env (Inr BodyNull) = (internal_error ''null is not an object'', [])"
    by (simp_all add: search_POST_def ask_POST_def ask_stream_POST_def property_def)
  have e: "length (snd (search_POST env req_json)) \<le> 1"
    by (simp add: search_POST_def Let_def split: sum.splits option.splits jsval.splits)
  have f: "length (snd (ask_POST env req_json)) \<le> 1"
    by (simp add: ask_POST_def Let_def split: sum.splits option.splits jsval.splits)
  have g: "length (snd (ask_stream_POST env req_json)) \<le> 1"
    by (simp add: ask_stream_POST_def Let_def split: sum.splits option.splits jsval.splits)
  from a b c d e f g show ?thesis by blast
qed

theorem invalid_field_is_client_error_witness:
  "search_POST example_env (Inr (BodyObject [''topK'' \<mapsto> Num 3]))
     = (Response 400 (ErrorBody ''Missing or invalid 'query' parameter'' None), [])
   \<and> ask_POST example_env (Inr (BodyObject [''question'' \<mapsto> Num 42]))
     = (Response 400 (ErrorBody ''Missing or invalid 'question' parameter'' None), [])
   \<and> ask_stream_POST example_env (Inr (BodyObject [''question'' \<mapsto> Num 42]))
     = (Response 400 (ErrorBody ''Missing or invalid 'question' parameter'' None), [])"
proof -
  have 1: "BodyObject [''topK'' \<mapsto> Num 3] \<noteq> BodyNull
      \<and> (\<not> truthy (field (BodyObject [''topK'' \<mapsto> Num 3]) ''query'')
          \<or> typeof (field (BodyObject [''topK'' \<mapsto> Num 3]) ''query'') \<noteq> ''string'')"
    by (simp add: field_def property_def truthy_def)
  have 2: "BodyObject [''question'' \<mapsto> Num 42] \<noteq> BodyNull
      \<and> (\<not> truthy (field (BodyObject [''question'' \<mapsto> Num 42]) ''question'')
          \<or> typeof (field (BodyObject [''question'' \<mapsto> Num 42]) ''question'') \<noteq> ''string'')"
    by (simp add: field_def property_def typeof_def)
  from invalid_field_is_client_error [of "BodyObject [''topK'' \<mapsto> Num 3]" example_env]
    invalid_field_is_client_error [of "BodyObject [''question'' \<mapsto> Num 42]" example_env]
    1 2
  show ?thesis by blast
qed

text \<open>
  Claim C7 as stated fails on a request that has no \<open>query\<close> or \<open>question\<close> field because its
  body is not JSON (an empty body, say) or is the JSON value \<open>null\<close>: \<open>req.json()\<close> or the
  first property read throws, and the outer \<open>catch\<close> answers with status 500.
\<close>

theorem unparsed_body_counterexample:
  "search_POST example_env (Inl ''Unexpected end of JSON input'')
     = (Response 500 (ErrorBody ''Internal server error'' (Some ''Unexpected end of JSON input'')), [])
   \<and> search_POST example_env (Inr BodyNull)
     = (Response 500 (ErrorBody ''Internal server error'' (Some ''null is not an object'')), [])
   \<and> ask_POST example_env (Inr BodyNull)
     = (Response 500 (ErrorBody ''Internal server error'' (Some ''null is not an object'')), [])
   \<and> ask_stream_POST example_env (Inr BodyNull)
     = (Response 500 (ErrorBody ''Internal server error'' (Some ''null is not an object'')), [])"
  by (simp add: search_POST_def ask_POST_def ask_stream_POST_def property_def internal_error_def)

lemma number_or_falsy: "\<not> truthy v \<Longrightarrow> number_or v d = d"
  by (simp add: number_or_def)

lemma search_POST_valid:
  assumes "property body ''query'' = Inr (Some (Str q))" and "q \<noteq> []"
  shows "snd (search_POST env (Inr body)) =
      [SearchSimilar q (number_or (field body ''topK'') (DEFAULT_TOP_K env))
              (number_or (field body ''similarityThreshold'') (SIMILARITY_THRESHOLD env))]"
  using assms by (simp add: search_POST_def truthy_def typeof_def Let_def split: sum.splits)

lemma ask_POST_valid:
  assumes "property body ''question'' = Inr (Some (Str q))" and "q \<noteq> []"
  shows "snd (ask_POST env (Inr body)) =
      [AskQuestion q (number_or (field body ''topK'') (DEFAULT_TOP_K env))
              (number_or (field body ''maxAnswerLength'') 800)
              (string_or_undefined (field body ''systemPrompt''))
              (number_or (field body ''similarityThreshold'') (SIMILARITY_THRESHOLD env))]"
  using assms by (simp add: ask_POST_def truthy_def typeof_def Let_def split: sum.splits)

lemma handler_calls_cases:
  "snd (search_POST env (Inr body)) = []
     \<or> (\<exists>q. property body ''query'' = Inr (Some (Str q)) \<and> q \<noteq> [])"
  "snd (ask_POST env (Inr body)) = []
     \<or> (\<exists>q. property body ''question'' = Inr (Some (Str q)) \<and> q \<noteq> [])"
  "snd (ask_stream_POST env (Inr body)) = []
     \<or> (\<exists>q. property body ''question'' = Inr (Some (Str q)) \<and> q \<noteq> [])"
  by (auto simp: search_POST_def ask_POST_def ask_stream_POST_def truthy_def typeof_def
      split: sum.splits option.splits jsval.splits)

text \<open>
  Claim C9. In every request whose body is an object, a \<open>topK\<close> that is falsy (0 among the
  falsy values) is never passed on: every call the handler makes to its service carries
  \<open>DEFAULT_TOP_K\<close>; and a \<open>similarityThreshold\<close> that is falsy, the threshold 0 included, is
  never passed on: every call carries \<open>SIMILARITY_THRESHOLD\<close>. This holds for the three
  handlers, and a request that passes validation makes exactly one call.
\<close>

theorem falsy_parameter_gets_default:
  "truthy (Some (Num 0)) = False
   \<and> (\<not> truthy (field body ''topK'') \<longrightarrow>
        list_all (\<lambda>c. call_topK c = DEFAULT_TOP_K env) (snd (search_POST env (Inr body)))
      \<and> list_all (\<lambda>c. call_topK c = DEFAULT_TOP_K env) (snd (ask_POST env (Inr body)))
      \<and> list_all (\<lambda>c. call_topK c = DEFAULT_TOP_K env) (snd (ask_stream_POST env (Inr body))))
   \<and> (\<not> truthy (field body ''similarityThreshold'') \<longrightarrow>
        list_all (\<lambda>c. call_similarityThreshold c = SIMILARITY_THRESHOLD env)
          (snd (search_POST env (Inr body)))
      \<and> list_all (\<lambda>c. call_similarityThreshold c = SIMILARITY_THRESHOLD env)
          (snd (ask_POST env (Inr body)))
      \<and> list_all (\<lambda>c. call_similarityThreshold c = SIMILARITY_THRESHOLD env)
          (snd (ask_stream_POST env (Inr body))))
   \<and> (property body ''query'' = Inr (Some (Str q)) \<and> q \<noteq> [] \<longrightarrow>
        length (snd (search_POST env (Inr body))) = 1)
   \<and> (property body ''question'' = Inr (Some (Str q)) \<and> q \<noteq> [] \<longrightarrow>
        length (snd (ask_POST env (Inr body))) = 1
      \<and> length (snd (ask_stream_POST env (Inr body))) = 1)"
proof -
  have z: "truthy (Some (Num 0)) = False" by (simp add: truthy_def)
  have k: "list_all (\<lambda>c. call_topK c = DEFAULT_TOP_K env) (snd (search_POST env (Inr body)))"
      "list_all (\<lambda>c. call_topK c = DEFAULT_TOP_K env) (snd (ask_POST env (Inr body)))"
      "list_all (\<lambda>c. call_topK c = DEFAULT_TOP_K env) (snd (ask_stream_POST env (Inr body)))"
    if "\<not> truthy (field body ''topK'')"
    using that handler_calls_cases [of env body]
    by (auto simp: search_POST_valid ask_POST_valid ask_stream_POST_valid number_or_falsy)
  have t: "list_all (\<lambda>c. call_similarityThreshold c = SIMILARITY_THRESHOLD env)
          (snd (search_POST env (Inr body)))"
      "list_all (\<lambda>c. call_similarityThreshold c = SIMILARITY_THRESHOLD env)
          (snd (ask_POST env (Inr body)))"
      "list_all (\<lambda>c. call_similarityThreshold c = SIMILARITY_THRESHOLD env)
          (snd (ask_stream_POST env (Inr body)))"
    if "\<not> truthy (field body ''similarityThreshold'')"
    using that handler_calls_cases [of env body]
    by (auto simp: search_POST_valid ask_POST_valid ask_stream_POST_valid number_or_falsy)
  have s: "length (snd (search_POST env (Inr body))) = 1"
    if "property body ''query'' = Inr (Some (Str q))" "q \<noteq> []"
    using that by (simp add: search_POST_valid)
  have a: "length (snd (ask_POST env (Inr body))) = 1"
      "length (snd (ask_stream_POST env (Inr body))) = 1"
    if "property body ''question'' = Inr (Some (Str q))" "q \<noteq> []"
    using that by (simp_all add: ask_POST_valid ask_stream_POST_valid)
  from z k t s a show ?thesis by blast
qed

theorem falsy_parameter_gets_default_witness:
  "snd (search_POST example_env (Inr (zero_params_body ''query''))) = [SearchSimilar ''roas'' 5 (3 / 10)]
   \<and> snd (ask_POST example_env (Inr (zero_params_body ''question'')))
        = [AskQuestion ''roas'' 5 800 None (3 / 10)]
   \<and> snd (ask_stream_POST example_env (Inr (zero_params_body ''question'')))
        = [StreamQuestion ''roas'' 5 800 None (3 / 10)]
   \<and> list_all (\<lambda>c. call_topK c = DEFAULT_TOP_K example_env)
        (snd (search_POST example_env (Inr (zero_params_body ''query''))))
   \<and> list_all (\<lambda>c. call_similarityThreshold c = SIMILARITY_THRESHOLD example_env)
        (snd (ask_stream_POST example_env (Inr (zero_params_body ''question''))))
   \<and> length (snd (ask_POST example_env (Inr (zero_params_body ''question'')))) = 1"
proof -
  have 1: "property (zero_params_body ''query'') ''query'' = Inr (Some (Str ''roas'')) \<and> ''roas'' \<noteq> []
      \<and> \<not> truthy (field (zero_params_body ''query'') ''topK'')
      \<and> \<not> truthy (field (zero_params_body ''query'') ''similarityThreshold'')"
    by (simp add: zero_params_body_def property_def field_def truthy_def)
  have 2: "property (zero_params_body ''question'') ''question'' = Inr (Some (Str ''roas'')) \<and> ''roas'' \<noteq> []
      \<and> \<not> truthy (field (zero_params_body ''question'') ''topK'')
      \<and> \<not> truthy (field (zero_params_body ''question'') ''similarityThreshold'')"
    by (simp add: zero_params_body_def property_def field_def truthy_def)
  have e: "snd (search_POST example_env (Inr (zero_params_body ''query''))) = [SearchSimilar ''roas'' 5 (3 / 10)]"
    "snd (ask_POST example_env (Inr (zero_params_body ''question''))) = [AskQuestion ''roas'' 5 800 None (3 / 10)]"
    "snd (ask_stream_POST example_env (Inr (zero_params_body ''question'')))
        = [StreamQuestion ''roas'' 5 800 None (3 / 10)]"
    by (simp_all add: search_POST_def ask_POST_def ask_stream_POST_def zero_params_body_def
        property_def field_def truthy_def typeof_def number_or_def string_or_undefined_def
        example_env_def Let_def)
  from falsy_parameter_gets_default [of "zero_params_body ''query''" example_env "''roas''"]
    falsy_parameter_gets_default [of "zero_params_body ''question''" example_env "''roas''"]
    1 2 e
  show ?thesis by simp
qed

theorem stream_error_event_is_terminal_witness:
  "fst (ask_stream_POST example_env (Inr (zero_params_body ''question''))) =
      Response 200 (EventStream
        \<lparr> enqueued = [''data: {content:a}'' @ [CHR 0x0A, CHR 0x0A], ''data: {content:ab}'' @ [CHR 0x0A, CHR 0x0A],
                       ''data: {content:abc}'' @ [CHR 0x0A, CHR 0x0A],
                       ''data: {error:model backend failed}'' @ [CHR 0x0A, CHR 0x0A]],
          closed = True \<rparr>)"
proof -
  have 1: "property (zero_params_body ''question'') ''question'' = Inr (Some (Str ''roas''))"
    by (simp add: zero_params_body_def property_def)
  have 2: "snd (ask_stream_POST example_env (Inr (zero_params_body ''question'')))
        = [StreamQuestion ''roas'' 5 800 None (3 / 10)]"
    by (simp add: ask_stream_POST_def zero_params_body_def
        property_def field_def truthy_def typeof_def number_or_def string_or_undefined_def
        example_env_def Let_def)
  have 3: "streamQuestion example_env ''roas'' 5 800 None (3 / 10)
      = map Yield [ContentDelta ''a'', ContentDelta ''ab'', ContentDelta ''abc'']
        @ Throw ''model backend failed'' # [Yield (ContentDelta ''abcd'')]"
    by (simp add: example_env_def)
  have 4: "JSON_stringify example_env = example_stringify" by (simp add: example_env_def)
  from stream_error_event_is_terminal [OF 1 _ 2, of "[ContentDelta ''a'', ContentDelta ''ab'', ContentDelta ''abc'']"
      "''model backend failed''" "[Yield (ContentDelta ''abcd'')]"] 3
  show ?thesis by (simp add: 4 sseMessage_def example_stringify_def)
qed

section \<open>Properties of ingestion\<close>




lemma bnd_Inr: "m s = (Inr x, s1) \<Longrightarrow> bnd m f s = f x s1"
  by (simp add: bnd_def)

lemma bnd_Inl: "m s = (Inl err, s1) \<Longrightarrow> bnd m f s = (Inl err, s1)"
  by (simp add: bnd_def)

lemma try_catch_Inr: "m s = (Inr x, s1) \<Longrightarrow> try_catch m h s = (Inr x, s1)"
  by (simp add: try_catch_def)

lemma try_catch_Inl: "m s = (Inl err, s1) \<Longrightarrow> try_catch m h s = h err s1"
  by (simp add: try_catch_def)


lemma grows_ret: "grows P (ret x)"
  by (simp add: grows_def ret_def)

lemma grows_throw: "grows P (throw err)"
  by (simp add: grows_def throw_def)

lemma grows_outside: "grows P (outside call)"
  by (auto simp: grows_def outside_def split: prod.splits)

lemma grows_bnd:
  assumes "grows P m" and "returns Q m" and "\<And>x. Q x \<Longrightarrow> grows P (f x)"
  shows "grows P (bnd m f)"
  unfolding grows_def
proof (intro allI impI)
  fix s r s' assume run: "bnd m f s = (r, s')"
  obtain r1 s1 where m: "m s = (r1, s1)" by (cases "m s")
  from assms(1) m obtain new1 where n1: "store s1 = store s @ new1" "list_all P new1"
    unfolding grows_def by blast
  show "\<exists>new. store s' = store s @ new \<and> list_all P new"
  proof (cases r1)
    case (Inl err)
    with m run have "s' = s1" by (simp add: bnd_def)
    with n1 show ?thesis by blast
  next
    case (Inr x)
    with m assms(2) have "Q x" unfolding returns_def by blast
    from assms(3) [OF this] have g: "grows P (f x)" .
    from Inr m run have "f x s1 = (r, s')" by (simp add: bnd_def)
    with g obtain new2 where "store s' = store s1 @ new2" "list_all P new2"
      unfolding grows_def by blast
    with n1 have "store s' = store s @ (new1 @ new2) \<and> list_all P (new1 @ new2)" by simp
    then show ?thesis by blast
  qed
qed

lemma returns_True: "returns (\<lambda>x. True) m"
  by (simp add: returns_def)

lemma grows_bnd_any:
  assumes "grows P m" and "\<And>x. grows P (f x)"
  shows "grows P (bnd m f)"
  using grows_bnd [OF assms(1) returns_True] assms(2) by blast

lemma grows_try_catch:
  assumes "grows P m" and "\<And>err. grows P (h err)"
  shows "grows P (try_catch m h)"
  unfolding grows_def
proof (intro allI impI)
  fix s r s' assume run: "try_catch m h s = (r, s')"
  obtain r1 s1 where m: "m s = (r1, s1)" by (cases "m s")
  from assms(1) m obtain new1 where n1: "store s1 = store s @ new1" "list_all P new1"
    unfolding grows_def by blast
  show "\<exists>new. store s' = store s @ new \<and> list_all P new"
  proof (cases r1)
    case (Inr x)
    with m run have "s' = s1" by (simp add: try_catch_def)
    with n1 show ?thesis by blast
  next
    case (Inl err)
    with m run have "h err s1 = (r, s')" by (simp add: try_catch_def)
    with assms(2) [of err] obtain new2 where "store s' = store s1 @ new2" "list_all P new2"
      unfolding grows_def by blast
    with n1 have "store s' = store s @ (new1 @ new2) \<and> list_all P (new1 @ new2)" by simp
    then show ?thesis by blast
  qed
qed

lemma grows_map_io:
  assumes "\<And>x. x \<in> set xs \<Longrightarrow> grows P (f x)"
  shows "grows P (map_io f xs)"
  using assms
proof (induction xs)
  case Nil
  show ?case by (simp add: grows_ret)
next
  case (Cons x xs)
  show ?case
    unfolding map_io.simps
    by (intro grows_bnd_any grows_ret Cons.IH Cons.prems) simp_all
qed

lemma grows_for_each:
  assumes "\<And>x. x \<in> set xs \<Longrightarrow> grows P (f x)"
  shows "grows P (for_each xs f)"
  using assms
proof (induction xs)
  case Nil
  show ?case by (simp add: grows_ret)
next
  case (Cons x xs)
  show ?case
    unfolding for_each.simps
    by (intro grows_bnd_any Cons.IH Cons.prems) simp_all
qed

lemma grows_insertDocument:
  assumes "\<And>i. P \<lparr> doc_id = i, doc_filename = name, doc_content = fullText,
               doc_chunk_text = chunk, doc_embedding = chunkEmbedding, doc_chunk_index = chunkIdx,
               doc_chunk_size = chunkSize, questions = qs, questionEmbeddings = qEmbeddings \<rparr>"
  shows "grows P (insertDocument name fullText chunk chunkEmbedding chunkIdx chunkSize qs qEmbeddings)"
  using assms by (auto simp: grows_def insertDocument_def)

lemma grows_chunks_of: "grows P (chunks_of env fullText)"
  by (simp add: chunks_of_def grows_ret grows_outside)

lemma grows_embed_questions: "grows P (embed_questions env qs)"
  by (simp add: embed_questions_def grows_ret grows_outside)

lemma grows_load_page: "grows P (load_page env url)"
  unfolding load_page_def
  by (intro grows_bnd_any grows_try_catch grows_outside grows_ret)










lemma ends_ret: "R x s \<Longrightarrow> ends (ret x) s T R"
  by (simp add: ends_def ret_def)


lemma ends_bnd: "ends m s T (\<lambda>x s1. ends (f x) s1 T R) \<Longrightarrow> ends (bnd m f) s T R"
  by (auto simp: ends_def bnd_def split: prod.splits sum.splits)


lemma ends_outside:
  assumes "\<And>err w'. call (world s) = (Inl err, w') \<Longrightarrow> T err (s\<lparr> world := w' \<rparr>)"
    and "\<And>x w'. call (world s) = (Inr x, w') \<Longrightarrow> R x (s\<lparr> world := w' \<rparr>)"
  shows "ends (outside call) s T R"
  using assms by (auto simp: ends_def outside_def split: prod.splits sum.splits)

lemma ends_insertDocument:
  assumes "R (Suc (length (store s)))
      (s\<lparr> store := store s @
            [\<lparr> doc_id = Suc (length (store s)), doc_filename = name, doc_content = fullText,
               doc_chunk_text = chunk, doc_embedding = chunkEmbedding, doc_chunk_index = chunkIdx,
               doc_chunk_size = chunkSize, questions = qs, questionEmbeddings = qEmbeddings \<rparr>] \<rparr>)"
  shows "ends (insertDocument name fullText chunk chunkEmbedding chunkIdx chunkSize qs qEmbeddings) s T R"
  using assms by (simp add: ends_def insertDocument_def)

lemma ends_embed_questions:
  assumes "\<And>err w'. T err (s\<lparr> world := w' \<rparr>)"
    and "\<And>x. R x s" and "\<And>x w'. R x (s\<lparr> world := w' \<rparr>)"
  shows "ends (embed_questions env qs) s T R"
  unfolding embed_questions_def
  using assms by (auto intro!: ends_outside ends_ret)


lemma content_vector_ofI:
  "generateEmbeddings env [normalizeForEmbedding env chunk] w = (Inr vectors, w')
    \<Longrightarrow> content_vector_of env chunk (js_nth vectors 0)"
  unfolding content_vector_of_def by blast


lemma page_chunk_outcome:
  "ends (ingest_page_chunk env title pageText chunks chunkIdx) s
     (\<lambda>err s'. store s' = store s)
     (\<lambda>u s'. \<exists>i e qs qes. store s' = store s @
          [\<lparr> doc_id = i, doc_filename = chunk_doc_id title chunkIdx (length chunks),
             doc_content = pageText, doc_chunk_text = chunks ! chunkIdx, doc_embedding = e,
             doc_chunk_index = chunkIdx, doc_chunk_size = length (chunks ! chunkIdx),
             questions = qs, questionEmbeddings = qes \<rparr>]
         \<and> content_vector_of env (chunks ! chunkIdx) e)"
  unfolding ingest_page_chunk_def
  by (auto intro!: ends_bnd ends_outside ends_embed_questions ends_insertDocument ends_ret
      content_vector_ofI)




lemma returns_ret: "Q x \<Longrightarrow> returns Q (ret x)"
  by (simp add: returns_def ret_def)

lemma returns_bnd:
  assumes "returns Q1 m" and "\<And>x. Q1 x \<Longrightarrow> returns Q2 (f x)"
  shows "returns Q2 (bnd m f)"
  unfolding returns_def
proof (intro allI impI)
  fix s y s' assume run: "bnd m f s = (Inr y, s')"
  obtain r1 s1 where m: "m s = (r1, s1)" by (cases "m s")
  show "Q2 y"
  proof (cases r1)
    case (Inl err)
    with m run show ?thesis by (simp add: bnd_def)
  next
    case (Inr x)
    with m assms(1) have "Q1 x" unfolding returns_def by blast
    from assms(2) [OF this] have "returns Q2 (f x)" .
    moreover from Inr m run have "f x s1 = (Inr y, s')" by (simp add: bnd_def)
    ultimately show ?thesis unfolding returns_def by blast
  qed
qed

lemma returns_map_io:
  assumes "\<And>x. returns (Q x) (f x)"
  shows "returns (list_all2 Q xs) (map_io f xs)"
proof (induction xs)
  case Nil
  show ?case by (simp add: returns_ret)
next
  case (Cons x xs)
  show ?case
    unfolding map_io.simps
    by (rule returns_bnd [OF assms [of x]], rule returns_bnd [OF Cons.IH], rule returns_ret) simp
qed

lemma returns_embed_questions:
  assumes "adapter_contract env"
  shows "returns (embedded_from env qs) (embed_questions env qs)"
  unfolding returns_def
proof (intro allI impI)
  fix s x s' assume run: "embed_questions env qs s = (Inr x, s')"
  show "embedded_from env qs x"
  proof (cases "qs = []")
    case True
    with run show ?thesis by (simp add: embed_questions_def ret_def embedded_from_def)
  next
    case False
    with run have "outside (generateEmbeddings env (map (normalizeForEmbedding env) qs)) s = (Inr x, s')"
      by (simp add: embed_questions_def)
    then obtain w' where g: "generateEmbeddings env (map (normalizeForEmbedding env) qs) (world s) = (Inr x, w')"
      by (auto simp: outside_def split: prod.splits)
    with assms have "length x = length (map (normalizeForEmbedding env) qs)"
      unfolding adapter_contract_def by blast
    with g False show ?thesis unfolding embedded_from_def by auto
  qed
qed

lemma aligned_record:
  "aligned env \<lparr> doc_id = i, doc_filename = name, doc_content = fullText,
               doc_chunk_text = chunk, doc_embedding = chunkEmbedding, doc_chunk_index = chunkIdx,
               doc_chunk_size = chunkSize, questions = qs, questionEmbeddings = qEmbeddings \<rparr>
   = embedded_from env qs qEmbeddings"
  by (simp add: aligned_def)

lemma grows_insert_aligned:
  "embedded_from env qs qEmbeddings \<Longrightarrow>
   grows (aligned env) (bnd (insertDocument name fullText chunk chunkEmbedding chunkIdx chunkSize qs qEmbeddings) (\<lambda>documentId. ret ()))"
  by (intro grows_bnd_any grows_insertDocument grows_ret) (simp add: aligned_record)

lemma grows_ingest_page_chunk:
  assumes "adapter_contract env"
  shows "grows (aligned env) (ingest_page_chunk env title pageText chunks chunkIdx)"
  unfolding ingest_page_chunk_def
  by (intro grows_bnd_any grows_outside
      grows_bnd [OF grows_embed_questions returns_embed_questions [OF assms]] grows_insert_aligned)

lemma grows_ingest_csv_chunk:
  assumes "adapter_contract env"
  shows "grows (aligned env) (ingest_csv_chunk env docIdentifier combinedText thesisField chunks chunkIdx)"
  unfolding ingest_csv_chunk_def
  by (intro grows_bnd_any grows_outside
      grows_bnd [OF grows_embed_questions returns_embed_questions [OF assms]] grows_insert_aligned)
    (simp_all add: grows_ret grows_outside)

lemma grows_ingest_sitemap_url:
  assumes "adapter_contract env"
  shows "grows (aligned env) (ingest_sitemap_url env sitemapEntry)"
  unfolding ingest_sitemap_url_def Let_def
  by (auto intro!: grows_try_catch grows_bnd_any grows_load_page grows_chunks_of grows_for_each
      grows_ingest_page_chunk [OF assms] grows_ret)

lemma grows_ingestSitemap:
  assumes "adapter_contract env"
  shows "grows (aligned env) (ingestSitemap env sitemapUrl)"
proof -
  have body: "grows (aligned env)
      (if length urls = 0 then ret []
       else bnd (outside (chromium_launch env)) (\<lambda>u.
            bnd (outside (browser_newPage env)) (\<lambda>u.
            bnd (outside (initializeQuestionGenerator env)) (\<lambda>u.
            map_io (ingest_sitemap_url env) urls))))" for urls
    by (auto intro!: grows_bnd_any grows_outside grows_map_io grows_ingest_sitemap_url [OF assms] grows_ret)
  have "grows (aligned env)
       (\<lambda>s. (let sitemapUrls = extractAllUrls (fetch_outcome env (world s)) sitemapUrl 3
              in if length sitemapUrls = 0 then ret []
                 else
                   bnd (outside (chromium_launch env)) (\<lambda>u.
                   bnd (outside (browser_newPage env)) (\<lambda>u.
                   bnd (outside (initializeQuestionGenerator env)) (\<lambda>u.
                   map_io (ingest_sitemap_url env) sitemapUrls)))) s)"
    unfolding grows_def Let_def
  proof (intro allI impI)
    fix s r s'
    assume "(if length (extractAllUrls (fetch_outcome env (world s)) sitemapUrl 3) = 0 then ret []
          else bnd (outside (chromium_launch env)) (\<lambda>u.
               bnd (outside (browser_newPage env)) (\<lambda>u.
               bnd (outside (initializeQuestionGenerator env)) (\<lambda>u.
               map_io (ingest_sitemap_url env) (extractAllUrls (fetch_outcome env (world s)) sitemapUrl 3))))) s
        = (r, s')"
    with body [of "extractAllUrls (fetch_outcome env (world s)) sitemapUrl 3"]
    show "\<exists>new. store s' = store s @ new \<and> list_all (aligned env) new"
      unfolding grows_def by blast
  qed
  then show ?thesis
    unfolding ingestSitemap_def by (intro grows_try_catch grows_throw)
qed

lemma grows_ingest_csv_row:
  assumes "adapter_contract env"
  shows "grows (aligned env) (ingest_csv_row env name schema indexed_row)"
  unfolding ingest_csv_row_def Let_def
  by (cases indexed_row)
    (auto intro!: grows_bnd_any grows_chunks_of grows_for_each grows_ingest_csv_chunk [OF assms] grows_ret)

lemma grows_ingestCSV:
  assumes "adapter_contract env"
  shows "grows (aligned env) (ingestCSV env filePath)"
  unfolding ingestCSV_def Let_def
  by (auto intro!: grows_try_catch grows_bnd_any grows_outside grows_map_io
      grows_ingest_csv_row [OF assms] grows_ret grows_throw)

lemma returns_map_io_length: "returns (\<lambda>ys. length ys = length xs) (map_io f xs)"
proof -
  have "returns (list_all2 (\<lambda>x y. True) xs) (map_io f xs)"
    by (rule returns_map_io) (simp add: returns_def)
  then show ?thesis
    unfolding returns_def by (metis list_all2_lengthD)
qed

lemma grows_insert_file_chunks:
  assumes "length allQuestions = length chunks"
    and "list_all2 (embedded_from env) allQuestions allQuestionEmbeddings"
  shows "grows (aligned env)
      (insert_file_chunks name fullText chunks contentEmbeddings allQuestions allQuestionEmbeddings)"
  unfolding insert_file_chunks_def
proof (rule grows_for_each)
  fix i assume "i \<in> set [0..<length chunks]"
  with assms(1) have "i < length allQuestions" by simp
  from list_all2_nthD [OF assms(2) this]
  have "embedded_from env (allQuestions ! i) (allQuestionEmbeddings ! i)" .
  then show "grows (aligned env)
      (bnd (insertDocument name fullText (chunks ! i) (js_nth contentEmbeddings i) i
                    (length (chunks ! i)) (allQuestions ! i) (allQuestionEmbeddings ! i))
                 (\<lambda>documentId. ret ()))"
    by (rule grows_insert_aligned)
qed

lemma grows_ingest_text_file:
  assumes "adapter_contract env"
  shows "grows (aligned env) (ingest_text_file env filePath)"
proof -
  have tail: "grows (aligned env)
      (bnd (map_io (\<lambda>chunk. outside (generateQuestions env chunk)) chunks) (\<lambda>allQuestions.
       bnd (map_io (embed_questions env) allQuestions) (\<lambda>allQuestionEmbeddings.
       bnd (insert_file_chunks name fullText chunks contentEmbeddings
              allQuestions allQuestionEmbeddings) (\<lambda>u.
       ret (succeeded name (length chunks))))))" for chunks name fullText contentEmbeddings
  proof (rule grows_bnd [OF _ returns_map_io_length])
    show "grows (aligned env) (map_io (\<lambda>chunk. outside (generateQuestions env chunk)) chunks)"
      by (intro grows_map_io grows_outside)
  next
    fix allQuestions :: "string list list"
    assume len: "length allQuestions = length chunks"
    show "grows (aligned env)
       (bnd (map_io (embed_questions env) allQuestions) (\<lambda>allQuestionEmbeddings.
        bnd (insert_file_chunks name fullText chunks contentEmbeddings
              allQuestions allQuestionEmbeddings) (\<lambda>u.
        ret (succeeded name (length chunks)))))"
    proof (rule grows_bnd [OF _ returns_map_io [where Q = "embedded_from env"]])
      show "grows (aligned env) (map_io (embed_questions env) allQuestions)"
        by (intro grows_map_io grows_embed_questions)
    next
      fix qs show "returns (embedded_from env qs) (embed_questions env qs)"
        by (rule returns_embed_questions [OF assms])
    next
      fix allQuestionEmbeddings
      assume "list_all2 (embedded_from env) allQuestions allQuestionEmbeddings"
      from grows_insert_file_chunks [OF len this]
      show "grows (aligned env)
         (bnd (insert_file_chunks name fullText chunks contentEmbeddings
              allQuestions allQuestionEmbeddings) (\<lambda>u.
          ret (succeeded name (length chunks))))"
        by (intro grows_bnd_any grows_ret)
    qed
  qed
  show ?thesis
    unfolding ingest_text_file_def
    by (auto intro!: grows_try_catch grows_bnd_any grows_outside grows_chunks_of tail grows_ret grows_throw)
qed

lemma grows_db:
  "grows P m \<Longrightarrow> m s = (r, s') \<Longrightarrow> \<exists>new. store s' = store s @ new \<and> list_all P new"
  unfolding grows_def by blast

text \<open>
  Claim C8. Under the adapter's contract, every record that the CSV path, the sitemap path
  and the file path (for a file that is not a code file) insert, also in a run that later
  throws, has as many question embeddings as questions, the embeddings being what the adapter
  returned for the normalized questions in their order; a record with no question has no
  question embedding.
\<close>

theorem question_embeddings_aligned:
  assumes "adapter_contract env"
  shows "grows (aligned env) (ingestCSV env filePath)
    \<and> grows (aligned env) (ingestSitemap env sitemapUrl)
    \<and> (\<not> (file_ext filePath \<noteq> [] \<and> file_ext filePath \<in> CODE_FILE_EXTENSIONS env)
        \<longrightarrow> grows (aligned env) (ingestFile env filePath))
    \<and> embedded_from env [] [] \<and> (embedded_from env [] qEmbeddings \<longrightarrow> qEmbeddings = [])"
proof -
  have "grows (aligned env) (ingestFile env filePath)"
    if "\<not> (file_ext filePath \<noteq> [] \<and> file_ext filePath \<in> CODE_FILE_EXTENSIONS env)"
    using that grows_ingestCSV [OF assms] grows_ingest_text_file [OF assms]
    by (auto simp: ingestFile_def)
  moreover have "embedded_from env [] []" "embedded_from env [] qEmbeddings \<longrightarrow> qEmbeddings = []"
    by (simp_all add: embedded_from_def)
  ultimately show ?thesis
    using grows_ingestCSV [OF assms] grows_ingestSitemap [OF assms] by blast
qed









lemma example_notes:
  "ingestFile example_ingest_env ''docs/notes.txt'' empty_store =
     (Inr \<lparr> result_filename = ''notes.txt'', chunks_created = 1, success = True, error = None \<rparr>,
      \<lparr> store = [\<lparr> doc_id = 1, doc_filename = ''notes.txt'',
                doc_content = ''Vectors are compared by cosine similarity.'',
                doc_chunk_text = ''Vectors are compared by cosine similarity.'',
                doc_embedding = Some [42, 1], doc_chunk_index = 0, doc_chunk_size = 42,
                questions = [''What is compared?'', ''How?''],
                questionEmbeddings = [[17, 1], [4, 1]] \<rparr>],
        world = (5, []) \<rparr>)"
  by code_simp

lemma example_notes_route:
  "file_ext ''docs/notes.txt'' \<noteq> ''csv''
   \<and> \<not> (file_ext ''docs/notes.txt'' \<noteq> [] \<and> file_ext ''docs/notes.txt'' \<in> CODE_FILE_EXTENSIONS example_ingest_env)
   \<and> extractTextFromFile example_ingest_env ''docs/notes.txt'' (world empty_store)
       = (Inr ''Vectors are compared by cosine similarity.'', (1, []))
   \<and> trim ''Vectors are compared by cosine similarity.'' \<noteq> []
   \<and> length ''Vectors are compared by cosine similarity.'' \<le> CHUNK_SIZE example_ingest_env"
  by code_simp

lemma example_page:
  "isValidUrl example_ingest_env (loc (page_entry ''https://x/p''))
   \<and> load_page example_ingest_env (loc (page_entry ''https://x/p'')) empty_store
       = (Inr (''Cosine similarity'', ''  Vectors are compared by cosine similarity.  ''),
          \<lparr> store = [], world = (6, ''https://x/p'') \<rparr>)
   \<and> trim (squeeze example_ingest_env ''  Vectors are compared by cosine similarity.  '') \<noteq> []
   \<and> length (trim (squeeze example_ingest_env ''  Vectors are compared by cosine similarity.  ''))
       \<le> CHUNK_SIZE example_ingest_env"
  by code_simp

lemma example_contract: "adapter_contract example_ingest_env"
  by (auto simp: adapter_contract_def example_ingest_env_def)

lemma example_short: "length ''Vectors are compared by cosine similarity.'' \<le> CHUNK_SIZE example_ingest_env"
  by code_simp







theorem question_embeddings_aligned_witness:
  "adapter_contract example_ingest_env
   \<and> store (snd (ingestSitemap example_ingest_env ''https://x/map.xml'' empty_store)) =
       [\<lparr> doc_id = 1, doc_filename = ''Cosine similarity'',
          doc_content = ''Vectors are compared by cosine similarity.'',
          doc_chunk_text = ''Vectors are compared by cosine similarity.'',
          doc_embedding = Some [42, 1], doc_chunk_index = 0, doc_chunk_size = 42,
          questions = [''What is compared?'', ''How?''],
          questionEmbeddings = [[17, 1], [4, 1]] \<rparr>]
   \<and> list_all (aligned example_ingest_env)
        (store (snd (ingestSitemap example_ingest_env ''https://x/map.xml'' empty_store)))
   \<and> list_all (aligned example_ingest_env)
        (store (snd (ingestFile example_ingest_env ''docs/table.csv'' empty_store)))"
proof -
  note t = question_embeddings_aligned [OF example_contract, where filePath = "''docs/table.csv''"
      and sitemapUrl = "''https://x/map.xml''"]
  have e: "store (snd (ingestSitemap example_ingest_env ''https://x/map.xml'' empty_store)) =
       [\<lparr> doc_id = 1, doc_filename = ''Cosine similarity'',
          doc_content = ''Vectors are compared by cosine similarity.'',
          doc_chunk_text = ''Vectors are compared by cosine similarity.'',
          doc_embedding = Some [42, 1], doc_chunk_index = 0, doc_chunk_size = 42,
          questions = [''What is compared?'', ''How?''],
          questionEmbeddings = [[17, 1], [4, 1]] \<rparr>]"
    by code_simp
  from t have g: "grows (aligned example_ingest_env) (ingestSitemap example_ingest_env ''https://x/map.xml'')"
    by blast
  obtain r s' where run: "ingestSitemap example_ingest_env ''https://x/map.xml'' empty_store = (r, s')"
    by (cases "ingestSitemap example_ingest_env ''https://x/map.xml'' empty_store")
  have d0: "store empty_store = []" by (simp add: empty_store_def)
  from grows_db [OF g run] d0 have a: "list_all (aligned example_ingest_env)
        (store (snd (ingestSitemap example_ingest_env ''https://x/map.xml'' empty_store)))"
    by (auto simp: run)
  have c: "\<not> (file_ext ''docs/table.csv'' \<noteq> [] \<and> file_ext ''docs/table.csv'' \<in> CODE_FILE_EXTENSIONS example_ingest_env)"
    by code_simp
  with t have g2: "grows (aligned example_ingest_env) (ingestFile example_ingest_env ''docs/table.csv'')"
    by blast
  obtain r2 s2 where run2: "ingestFile example_ingest_env ''docs/table.csv'' empty_store = (r2, s2)"
    by (cases "ingestFile example_ingest_env ''docs/table.csv'' empty_store")
  from grows_db [OF g2 run2] d0 have b: "list_all (aligned example_ingest_env)
        (store (snd (ingestFile example_ingest_env ''docs/table.csv'' empty_store)))"
    by (auto simp: run2)
  from example_contract e a b show ?thesis by blast
qed

lemma returns_outside_True: "returns (\<lambda>x. True) (outside call)"
  by (simp add: returns_def)

lemma ingestSitemap_one_result_per_url:
  assumes "ingestSitemap env sitemapUrl s = (Inr results, s')"
  shows "length results = length (extractAllUrls (fetch_outcome env (world s)) sitemapUrl 3)"
proof -
  let ?urls = "extractAllUrls (fetch_outcome env (world s)) sitemapUrl 3"
  have r: "returns (\<lambda>results. length results = length ?urls)
      (if length ?urls = 0 then ret []
       else bnd (outside (chromium_launch env)) (\<lambda>u.
            bnd (outside (browser_newPage env)) (\<lambda>u.
            bnd (outside (initializeQuestionGenerator env)) (\<lambda>u.
            map_io (ingest_sitemap_url env) ?urls))))"
    by (auto intro!: returns_ret returns_bnd [OF returns_outside_True] returns_map_io_length)
  from assms have "(if length ?urls = 0 then ret []
       else bnd (outside (chromium_launch env)) (\<lambda>u.
            bnd (outside (browser_newPage env)) (\<lambda>u.
            bnd (outside (initializeQuestionGenerator env)) (\<lambda>u.
            map_io (ingest_sitemap_url env) ?urls)))) s = (Inr results, s')"
    by (auto simp: ingestSitemap_def try_catch_def throw_def Let_def split: prod.splits sum.splits)
  with r show ?thesis unfolding returns_def by blast
qed

lemma ingestDirectory_stops_at_throw:
  assumes "globScan env directoryPath (world s) = (Inr (file # files), w1)"
    and "ingestFile env (directoryPath @ ''/'' @ file) (s\<lparr> world := w1 \<rparr>) = (Inl err, s2)"
  shows "ingestDirectory env directoryPath s = (Inr [], s2)"
  using assms
  by (simp add: ingestDirectory_def try_catch_def bnd_def outside_def)

text \<open>
  Claim C1 fails for \<open>ingestDirectory\<close>. The directory lists three files; extracting the
  second throws, and the third would ingest well on its own. The result list has one entry,
  for the first file: the failure has no entry, and the third file is never processed.
\<close>

theorem ingestDirectory_drops_failed_and_later_files:
  "fst (globScan example_ingest_env ''docs'' (world empty_store))
     = Inr [''notes.txt'', ''broken.pdf'', ''more.txt'']
   \<and> fst (ingestFile example_ingest_env ''docs/broken.pdf'' empty_store)
     = Inl ''Failed to ingest file broken.pdf: Invalid PDF structure''
   \<and> fst (ingestFile example_ingest_env ''docs/more.txt'' empty_store)
     = Inr \<lparr> result_filename = ''more.txt'', chunks_created = 1, success = True, error = None \<rparr>
   \<and> fst (ingestDirectory example_ingest_env ''docs'' empty_store)
     = Inr [\<lparr> result_filename = ''notes.txt'', chunks_created = 1, success = True, error = None \<rparr>]
   \<and> map doc_filename (store (snd (ingestDirectory example_ingest_env ''docs'' empty_store)))
     = [''notes.txt'']"
  by code_simp

section \<open>Properties of the score fusion\<close>

lemma best_similarity_Max:
  "vs \<noteq> [] \<Longrightarrow> best_similarity query vs = Some (Max (cosine_similarity query ` set vs))"
proof (induction vs)
  case Nil
  then show ?case by simp
next
  case (Cons v vs)
  show ?case
  proof (cases "vs = []")
    case True
    then show ?thesis by simp
  next
    case False
    with Cons.IH have "best_similarity query vs = Some (Max (cosine_similarity query ` set vs))"
      by simp
    moreover from False have "Max (insert (cosine_similarity query v) (cosine_similarity query ` set vs))
        = max (cosine_similarity query v) (Max (cosine_similarity query ` set vs))"
      by (intro Max_insert) simp_all
    ultimately show ?thesis by simp
  qed
qed

lemma best_similarity_snoc:
  "best_similarity query (vs @ [v]) =
     (case best_similarity query vs of
        None \<Rightarrow> Some (cosine_similarity query v)
      | Some m \<Rightarrow> Some (max m (cosine_similarity query v)))"
  by (induction vs) (auto split: option.splits simp: max.assoc max.commute max.left_commute)

text \<open>
  Claim C2. For every chunk with question vectors and every query, the question score is the
  maximum cosine similarity over the chunk's own question vectors and the fused score is the
  maximum of the content score and the question score; and, for every chunk, adding a
  question vector never lowers the fused score for a fixed query.
\<close>

theorem fused_score_is_max:
  "(question_vectors c \<noteq> [] \<longrightarrow>
      question_score query c = Some (Max (cosine_similarity query ` set (question_vectors c)))
      \<and> fused_score query c
          = max (content_score query c) (Max (cosine_similarity query ` set (question_vectors c))))
   \<and> (question_vectors c = [] \<longrightarrow> fused_score query c = content_score query c)
   \<and> fused_score query c \<le> fused_score query (add_question v c)"
proof (intro conjI impI)
  assume ne: "question_vectors c \<noteq> []"
  from best_similarity_Max [OF ne]
  show q: "question_score query c = Some (Max (cosine_similarity query ` set (question_vectors c)))"
    by (simp add: question_score_def)
  then show "fused_score query c
          = max (content_score query c) (Max (cosine_similarity query ` set (question_vectors c)))"
    by (simp add: fused_score_def)
next
  assume "question_vectors c = []"
  then show "fused_score query c = content_score query c"
    by (simp add: fused_score_def question_score_def)
next
  have cs: "content_score query (add_question v c) = content_score query c"
    by (simp add: content_score_def add_question_def)
  show "fused_score query c \<le> fused_score query (add_question v c)"
    unfolding fused_score_def cs
    by (cases "best_similarity query (question_vectors c)")
      (simp_all add: question_score_def add_question_def best_similarity_snoc)
qed

lemma example_cosines:
  "cosine_similarity [1, 0] [0, 1] = 0" "cosine_similarity [1, 0] [1, 0] = 1"
  "cosine_similarity [1, 0] [1, 1] = 1 / sqrt 2"
  by (simp_all add: cosine_similarity_def dot_def)

theorem fused_score_is_max_witness:
  "question_vectors example_chunk \<noteq> []
   \<and> content_score [1, 0] example_chunk = 0
   \<and> question_score [1, 0] example_chunk = Some 1
   \<and> fused_score [1, 0] example_chunk = 1
   \<and> fused_score [1, 0] example_chunk \<le> fused_score [1, 0] (add_question [1, 1] example_chunk)"
proof -
  have ne: "question_vectors example_chunk \<noteq> []" by (simp add: example_chunk_def)
  have m: "Max (cosine_similarity [1, 0] ` set (question_vectors example_chunk)) = 1"
    by (simp add: example_chunk_def example_cosines)
  have c: "content_score [1, 0] example_chunk = 0"
    by (simp add: content_score_def example_chunk_def example_cosines)
  from fused_score_is_max [of example_chunk "[1, 0]" "[1, 1]"] ne m c
  show ?thesis by simp
qed

end
